theory Spec2Isabelle
  imports Complex_Main
begin

section \<open>Dendritic gated network: the per-example step\<close>

text \<open>
  The functions \<open>step_square_loss\<close>, \<open>sigmoid\<close>, \<open>inverse_sigmoid\<close> and \<open>step_bernoulli\<close> of
  \<^verbatim>\<open>gated_linear_networks/colabs/dendritic_gated_network.ipynb\<close>, with the numpy operations
  they call written out index by index.

  Numbers. There are two embeddings. In the first, which follows, a numpy \<open>float64\<close> is
  a \<open>real\<close>: the arithmetic is exact, without rounding, overflow, signed zeros, \<open>inf\<close> or
  \<open>nan\<close>. Where numpy leaves the reals (\<open>np.log\<close> of a number that is not positive, a
  division by zero: numpy's default error state warns and goes on with \<open>-inf\<close>, \<open>inf\<close> or
  \<open>nan\<close>) the run of the model ends with \<open>NonFinite\<close>, which is not a Python exception.
  The second embedding, in the next section, keeps the infinities, nan and overflow;
  the properties that depend on them are stated on it.

  Arrays. \<open>inputs\<close> and the activations are one-dimensional arrays, modelled as lists. A
  weight or hyperplane array is three-dimensional: its shape and its entries by index.
  Entries at an index outside the shape do not belong to the array.

  State. \<open>weights\<close> is a list of distinct arrays, one per layer, as the notebook builds
  it; \<open>w -= ...\<close> mutates the layer's array in place. Every function that can mutate
  returns the arrays as they are when it returns or raises.

  Arguments. \<open>target\<close> is a float or None. \<open>hyperplane_bias_magnitude\<close>, \<open>learning_rate\<close>
  and \<open>epsilon\<close> are floats, passed explicitly (the notebook's defaults are 1, 1e-5 and
  0.01).
\<close>

datatype error = TypeError | ValueError | IndexError | UnboundLocalError | NonFinite

record ndarray3 =
  shape0 :: nat
  shape1 :: nat
  shape2 :: nat
  elem :: "nat \<Rightarrow> nat \<Rightarrow> nat \<Rightarrow> real"

text \<open>\<open>np.zeros((n, b, k))\<close>, as the notebook initialises the weights.\<close>

definition zeros :: "nat \<Rightarrow> nat \<Rightarrow> nat \<Rightarrow> ndarray3" where
  "zeros n b k = \<lparr>shape0 = n, shape1 = b, shape2 = k, elem = (\<lambda>_ _ _. 0)\<rparr>"

text \<open>\<open>np.array(xs)\<close> of a rectangular nested list with no empty axis.\<close>

definition array3 :: "real list list list \<Rightarrow> ndarray3" where
  "array3 xs = \<lparr>shape0 = length xs,
                shape1 = (case xs of [] \<Rightarrow> 0 | r # _ \<Rightarrow> length r),
                shape2 = (case xs of [] \<Rightarrow> 0 | r # _ \<Rightarrow> (case r of [] \<Rightarrow> 0 | c # _ \<Rightarrow> length c)),
                elem = (\<lambda>i j k. xs ! i ! j ! k)\<rparr>"

text \<open>\<open>a.tolist()\<close>: the entries inside the shape.\<close>

definition tolist :: "ndarray3 \<Rightarrow> real list list list" where
  "tolist a = map (\<lambda>i. map (\<lambda>j. map (\<lambda>k. elem a i j k) [0..<shape2 a]) [0..<shape1 a]) [0..<shape0 a]"

subsection \<open>The numpy functions the step calls\<close>

text \<open>\<open>np.hstack([x, xs])\<close> of a number and a one-dimensional array.\<close>

definition hstack :: "real \<Rightarrow> real list \<Rightarrow> real list" where
  "hstack x xs = x # xs"

text \<open>\<open>np.heaviside(x1, x2)\<close>: 0 where \<open>x1 < 0\<close>, \<open>x2\<close> where \<open>x1 == 0\<close>, 1 where \<open>x1 > 0\<close>.\<close>

definition heaviside :: "real \<Rightarrow> real \<Rightarrow> real" where
  "heaviside x1 x2 = (if x1 < 0 then 0 else if x1 = 0 then x2 else 1)"

text \<open>\<open>.astype(bool)\<close> of a float: true unless it is zero.\<close>

definition astype_bool :: "real \<Rightarrow> bool" where
  "astype_bool x = (x \<noteq> 0)"

text \<open>\<open>np.clip(x, lo, hi)\<close> is \<open>minimum(maximum(x, lo), hi)\<close>, also when \<open>lo > hi\<close>.\<close>

definition clip :: "real \<Rightarrow> real \<Rightarrow> real \<Rightarrow> real" where
  "clip x lo hi = min (max x lo) hi"

text \<open>\<open>np.logaddexp(a, b)\<close> is \<open>log(exp(a) + exp(b))\<close>.\<close>

definition logaddexp :: "real \<Rightarrow> real \<Rightarrow> real" where
  "logaddexp a b = ln (exp a + exp b)"

definition sigmoid :: "real \<Rightarrow> real" where
  "sigmoid x = exp (- logaddexp 0 (- x))"

text \<open>
  \<open>inverse_sigmoid\<close> is \<open>np.log(x/(1-x))\<close>. It is a real number where \<open>0 < x < 1\<close>; at 1 the
  division is by zero, and elsewhere the logarithm is of a number that is not positive.
\<close>

definition inverse_sigmoid :: "real \<Rightarrow> real option" where
  "inverse_sigmoid x = (if 0 < x \<and> x < 1 then Some (ln (x / (1 - x))) else None)"

text \<open>\<open>inverse_sigmoid\<close> of an array, entry by entry.\<close>

fun inverse_sigmoid_array :: "real list \<Rightarrow> real list option" where
  "inverse_sigmoid_array [] = Some []"
| "inverse_sigmoid_array (x # xs) =
     (case inverse_sigmoid x of None \<Rightarrow> None
      | Some y \<Rightarrow> (case inverse_sigmoid_array xs of None \<Rightarrow> None | Some ys \<Rightarrow> Some (y # ys)))"

subsection \<open>One layer: the body of the loop\<close>

text \<open>
  \<open>h.dot(side_info)\<close> and \<open>np.heaviside(h.dot(side_info), 0).astype(bool)\<close> at the index
  \<open>(n, b)\<close>. The dot product sums over the last axis of \<open>h\<close>; it raises ValueError unless
  that axis is as long as \<open>side_info\<close>, which the layer checks.
\<close>

definition h_dot :: "ndarray3 \<Rightarrow> real list \<Rightarrow> nat \<Rightarrow> nat \<Rightarrow> real" where
  "h_dot h side_info n b = (\<Sum>d\<leftarrow>[0..<shape2 h]. elem h n b d * side_info ! d)"

definition gate_values :: "ndarray3 \<Rightarrow> real list \<Rightarrow> nat \<Rightarrow> nat \<Rightarrow> bool" where
  "gate_values h side_info n b = astype_bool (heaviside (h_dot h side_info n b) 0)"

text \<open>
  \<open>gate_values.dot(w).sum(axis=1)\<close> at the index \<open>(n, m)\<close>. For a two-dimensional \<open>a\<close> and a
  three-dimensional \<open>b\<close>, \<open>a.dot(b)[n, k, m]\<close> is the sum over \<open>j\<close> of \<open>a[n, j] * b[k, j, m]\<close>:
  the last axis of \<open>a\<close> against the second-to-last of \<open>b\<close>, with the first axis of \<open>b\<close> kept
  as axis 1 of the result. \<open>.sum(axis=1)\<close> then sums over that \<open>k\<close>, the first axis of \<open>w\<close>.
\<close>

definition gate_dot_w :: "(nat \<Rightarrow> nat \<Rightarrow> bool) \<Rightarrow> ndarray3 \<Rightarrow> nat \<Rightarrow> nat \<Rightarrow> nat \<Rightarrow> real" where
  "gate_dot_w gate w n k m = (\<Sum>j\<leftarrow>[0..<shape1 w]. of_bool (gate n j) * elem w k j m)"

definition effective_weights :: "(nat \<Rightarrow> nat \<Rightarrow> bool) \<Rightarrow> ndarray3 \<Rightarrow> nat \<Rightarrow> nat \<Rightarrow> real" where
  "effective_weights gate w n m = (\<Sum>k\<leftarrow>[0..<shape0 w]. gate_dot_w gate w n k m)"

text \<open>
  \<open>w -= learning_rate * gate_values[:, :, None] * grad[:, None]\<close>. The right-hand side has
  the shape \<open>(shape0 h, shape1 h, len(r_in))\<close>; the last two axes agree with those of \<open>w\<close>
  once the forward pass has gone through. In place, it must broadcast to the shape of
  \<open>w\<close>: the first axes agree, or the right-hand side has one row, which is then subtracted
  from every row of \<open>w\<close>; otherwise ValueError.
\<close>

definition isub ::
  "ndarray3 \<Rightarrow> nat \<Rightarrow> real \<Rightarrow> (nat \<Rightarrow> nat \<Rightarrow> bool) \<Rightarrow> (nat \<Rightarrow> nat \<Rightarrow> real)
     \<Rightarrow> error + ndarray3" where
  "isub w rows learning_rate gate grad =
     (if rows = shape0 w \<or> rows = 1
      then Inr (w\<lparr>elem := (\<lambda>k b m.
             if k < shape0 w \<and> b < shape1 w \<and> m < shape2 w
             then elem w k b m
                  - learning_rate * of_bool (gate (if rows = 1 then 0 else k) b)
                    * grad (if rows = 1 then 0 else k) m
             else elem w k b m)\<rparr>)
      else Inl ValueError)"

text \<open>
  The body of the loop of \<open>step_square_loss\<close> for one pair \<open>w, h\<close>: the value of \<open>r_out\<close> or
  the exception raised, and \<open>w\<close> as the body leaves it. The three ValueErrors are those of
  \<open>h.dot(side_info)\<close>, \<open>gate_values.dot(w)\<close> and \<open>effective_weights.dot(r_in)\<close>, whose summed
  axes must be equally long; the TypeError is that of \<open>r_out[:, None] - target\<close> with
  \<open>target\<close> None.
\<close>

definition layer_square_loss ::
  "real list \<Rightarrow> real \<Rightarrow> real option \<Rightarrow> bool \<Rightarrow> real list \<Rightarrow> ndarray3 \<Rightarrow> ndarray3
     \<Rightarrow> (error + real list) \<times> ndarray3" where
  "layer_square_loss side_info learning_rate target update r_in0 w h =
     (let r_in = hstack 1 r_in0 in
      if shape2 h \<noteq> length side_info then (Inl ValueError, w) else
      let gate = gate_values h side_info in
      if shape1 h \<noteq> shape1 w then (Inl ValueError, w) else
      let ew = effective_weights gate w in
      if shape2 w \<noteq> length r_in then (Inl ValueError, w) else
      let r_out = map (\<lambda>n. \<Sum>m\<leftarrow>[0..<shape2 w]. ew n m * r_in ! m) [0..<shape0 h] in
      if update then
        (case target of
           None \<Rightarrow> (Inl TypeError, w)
         | Some t \<Rightarrow>
             let grad = (\<lambda>n m. (r_out ! n - t) * r_in ! m) in
             (case isub w (shape0 h) learning_rate gate grad of
                Inl e \<Rightarrow> (Inl e, w)
              | Inr w' \<Rightarrow> (Inr r_out, w')))
      else (Inr r_out, w))"

text \<open>
  The body of the loop of \<open>step_bernoulli\<close>. \<open>h_in\<close> is computed before the gates, so a
  run that leaves the reals there ends before any shape is compared.
\<close>

definition layer_bernoulli ::
  "real list \<Rightarrow> real \<Rightarrow> real \<Rightarrow> real option \<Rightarrow> bool \<Rightarrow> real list \<Rightarrow> ndarray3 \<Rightarrow> ndarray3
     \<Rightarrow> (error + real list) \<times> ndarray3" where
  "layer_bernoulli side_info learning_rate epsilon target update r_in0 w h =
     (let r_in = hstack (sigmoid 1) r_in0 in
      case inverse_sigmoid_array r_in of
        None \<Rightarrow> (Inl NonFinite, w)
      | Some h_in \<Rightarrow>
      if shape2 h \<noteq> length side_info then (Inl ValueError, w) else
      let gate = gate_values h side_info in
      if shape1 h \<noteq> shape1 w then (Inl ValueError, w) else
      let ew = effective_weights gate w in
      if shape2 w \<noteq> length h_in then (Inl ValueError, w) else
      let h_out = map (\<lambda>n. \<Sum>m\<leftarrow>[0..<shape2 w]. ew n m * h_in ! m) [0..<shape0 h];
          r_out = map (\<lambda>x. clip (sigmoid x) epsilon (1 - epsilon)) h_out in
      if update then
        (case target of
           None \<Rightarrow> (Inl TypeError, w)
         | Some t \<Rightarrow>
             let update_indicator = (\<lambda>n. r_out ! n < 1 - epsilon \<and> r_out ! n > epsilon);
                 grad = (\<lambda>n m. (r_out ! n - t) * h_in ! m * of_bool (update_indicator n)) in
             (case isub w (shape0 h) learning_rate gate grad of
                Inl e \<Rightarrow> (Inl e, w)
              | Inr w' \<Rightarrow> (Inr r_out, w')))
      else (Inr r_out, w))"

subsection \<open>The loop over the layers and the two steps\<close>

text \<open>
  \<open>for w, h in zip(weights, hyperplanes)\<close>, the same in both steps: it stops with the
  shorter list. \<open>r_out\<close> is unbound (None) until the body has run once. The arrays come
  back in the order of \<open>weights\<close>: those of the layers already run as their bodies left
  them, the others untouched.
\<close>

fun for_layers ::
  "(real list \<Rightarrow> ndarray3 \<Rightarrow> ndarray3 \<Rightarrow> (error + real list) \<times> ndarray3)
     \<Rightarrow> real list \<Rightarrow> real list option \<Rightarrow> ndarray3 list \<Rightarrow> ndarray3 list
     \<Rightarrow> (error + real list option) \<times> ndarray3 list" where
  "for_layers body r_in r_out (w # weights) (h # hyperplanes) =
     (case body r_in w h of
        (Inl e, w') \<Rightarrow> (Inl e, w' # weights)
      | (Inr r, w') \<Rightarrow>
          (case for_layers body r (Some r) weights hyperplanes of
             (res, weights') \<Rightarrow> (res, w' # weights')))"
| "for_layers body r_in r_out weights hyperplanes = (Inr r_out, weights)"

text \<open>
  What follows the loop: \<open>r_out[0]\<close> raises UnboundLocalError when the loop never ran and
  IndexError when the last layer has no neuron; the loss raises TypeError when \<open>target\<close>
  is None.
\<close>

definition step_square_loss ::
  "real list \<Rightarrow> ndarray3 list \<Rightarrow> ndarray3 list \<Rightarrow> real \<Rightarrow> real \<Rightarrow> real option \<Rightarrow> bool
     \<Rightarrow> (error + real \<times> real) \<times> ndarray3 list" where
  "step_square_loss inputs weights hyperplanes hyperplane_bias_magnitude learning_rate target update =
     (let r_in = inputs;
          side_info = hstack hyperplane_bias_magnitude inputs in
      case for_layers (layer_square_loss side_info learning_rate target update)
             r_in None weights hyperplanes of
        (Inl e, weights') \<Rightarrow> (Inl e, weights')
      | (Inr None, weights') \<Rightarrow> (Inl UnboundLocalError, weights')
      | (Inr (Some []), weights') \<Rightarrow> (Inl IndexError, weights')
      | (Inr (Some (r0 # _)), weights') \<Rightarrow>
          (case target of
             None \<Rightarrow> (Inl TypeError, weights')
           | Some t \<Rightarrow> (Inr (r0, (t - r0)\<^sup>2 / 2), weights')))"

definition step_bernoulli ::
  "real list \<Rightarrow> ndarray3 list \<Rightarrow> ndarray3 list \<Rightarrow> real \<Rightarrow> real \<Rightarrow> real \<Rightarrow> real option \<Rightarrow> bool
     \<Rightarrow> (error + real \<times> real) \<times> ndarray3 list" where
  "step_bernoulli inputs weights hyperplanes hyperplane_bias_magnitude learning_rate epsilon target update =
     (let r_in = map (\<lambda>x. clip (sigmoid x) epsilon (1 - epsilon)) inputs;
          side_info = hstack hyperplane_bias_magnitude inputs in
      case for_layers (layer_bernoulli side_info learning_rate epsilon target update)
             r_in None weights hyperplanes of
        (Inl e, weights') \<Rightarrow> (Inl e, weights')
      | (Inr None, weights') \<Rightarrow> (Inl UnboundLocalError, weights')
      | (Inr (Some []), weights') \<Rightarrow> (Inl IndexError, weights')
      | (Inr (Some (r0 # _)), weights') \<Rightarrow>
          (case target of
             None \<Rightarrow> (Inl TypeError, weights')
           | Some t \<Rightarrow> (Inr (r0, - (t * r0 + (1 - t) * (1 - r0))), weights')))"

section \<open>The steps over float64 values with infinities and nan\<close>

text \<open>
  The same functions once more, over the values of a \<open>float64\<close>: a finite number, one
  of the two infinities, or nan. The arithmetic is that of IEEE 754 as numpy performs
  it, with its default error state (an overflow, an invalid operation or a division by
  zero warns and goes on), and with one simplification: a finite result is exact.
  Rounding to 53 bits, underflow and the sign of a zero are left out (there is one
  zero, read as \<open>+0.0\<close>); a result becomes an infinity exactly when rounding to nearest
  makes it one, from \<open>2^1024 - 2^970\<close> on.

  numpy does not fix the order in which \<open>dot\<close> and \<open>sum\<close> add; here they add in the order
  of the indices. The shapes, the exceptions and the loop are those of the first
  embedding. \<open>hyperplane_bias_magnitude\<close>, \<open>learning_rate\<close>, \<open>epsilon\<close> and \<open>target\<close> are
  finite floats, and \<open>1 - epsilon\<close> is exact.
\<close>

datatype float64 = Finite real | PosInf | NegInf | NaN

text \<open>
  The float of an exact result: an infinity where round-to-nearest overflows.
\<close>

definition of_exact :: "real \<Rightarrow> float64" where
  "of_exact x = (if 2 ^ 1024 - 2 ^ 970 \<le> x then PosInf
                 else if x \<le> - (2 ^ 1024 - 2 ^ 970) then NegInf
                 else Finite x)"

text \<open>
  Whether a value is a float64 at all: a finite one lies below the overflow threshold.
\<close>

fun is_float64 :: "float64 \<Rightarrow> bool" where
  "is_float64 (Finite x) = (\<bar>x\<bar> < 2 ^ 1024 - 2 ^ 970)"
| "is_float64 x = True"

text \<open>
  Negation, addition, subtraction, multiplication and division. nan propagates;
  \<open>inf - inf\<close>, \<open>0 * inf\<close>, \<open>inf / inf\<close> and \<open>0 / 0\<close> are nan; a nonzero number divided
  by zero is an infinity of the sign of the number.
\<close>

fun neg64 :: "float64 \<Rightarrow> float64" where
  "neg64 (Finite x) = Finite (- x)"
| "neg64 PosInf = NegInf"
| "neg64 NegInf = PosInf"
| "neg64 NaN = NaN"

fun add64 :: "float64 \<Rightarrow> float64 \<Rightarrow> float64" where
  "add64 NaN y = NaN"
| "add64 x NaN = NaN"
| "add64 PosInf NegInf = NaN"
| "add64 NegInf PosInf = NaN"
| "add64 PosInf y = PosInf"
| "add64 x PosInf = PosInf"
| "add64 NegInf y = NegInf"
| "add64 x NegInf = NegInf"
| "add64 (Finite x) (Finite y) = of_exact (x + y)"

definition sub64 :: "float64 \<Rightarrow> float64 \<Rightarrow> float64" where
  "sub64 x y = add64 x (neg64 y)"

fun mul64 :: "float64 \<Rightarrow> float64 \<Rightarrow> float64" where
  "mul64 NaN y = NaN"
| "mul64 x NaN = NaN"
| "mul64 (Finite x) (Finite y) = of_exact (x * y)"
| "mul64 (Finite x) y = (if x = 0 then NaN else if 0 < x then y else neg64 y)"
| "mul64 x (Finite y) = (if y = 0 then NaN else if 0 < y then x else neg64 x)"
| "mul64 PosInf y = y"
| "mul64 NegInf y = neg64 y"

fun div64 :: "float64 \<Rightarrow> float64 \<Rightarrow> float64" where
  "div64 NaN y = NaN"
| "div64 x NaN = NaN"
| "div64 (Finite x) (Finite y) =
     (if y = 0 then (if x = 0 then NaN else if 0 < x then PosInf else NegInf)
      else of_exact (x / y))"
| "div64 (Finite x) y = Finite 0"
| "div64 x (Finite y) = (if y < 0 then neg64 x else x)"
| "div64 x y = NaN"

text \<open>
  \<open>np.exp\<close> and \<open>np.log\<close>: \<open>exp(-inf)\<close> is 0, \<open>log(0)\<close> is \<open>-inf\<close>, and the logarithm of a
  negative number or of \<open>-inf\<close> is nan.
\<close>

fun exp64 :: "float64 \<Rightarrow> float64" where
  "exp64 (Finite x) = of_exact (exp x)"
| "exp64 PosInf = PosInf"
| "exp64 NegInf = Finite 0"
| "exp64 NaN = NaN"

fun log64 :: "float64 \<Rightarrow> float64" where
  "log64 (Finite x) = (if x < 0 then NaN else if x = 0 then NegInf else of_exact (ln x))"
| "log64 PosInf = PosInf"
| "log64 NegInf = NaN"
| "log64 NaN = NaN"

text \<open>
  \<open>np.logaddexp\<close> computes \<open>log(exp(a) + exp(b))\<close> without forming the exponentials, so
  only the result can overflow; with an infinite argument it is the larger of the two.
\<close>

fun logaddexp64 :: "float64 \<Rightarrow> float64 \<Rightarrow> float64" where
  "logaddexp64 NaN y = NaN"
| "logaddexp64 x NaN = NaN"
| "logaddexp64 PosInf y = PosInf"
| "logaddexp64 x PosInf = PosInf"
| "logaddexp64 NegInf y = y"
| "logaddexp64 x NegInf = x"
| "logaddexp64 (Finite x) (Finite y) = of_exact (ln (exp x + exp y))"

definition sigmoid64 :: "float64 \<Rightarrow> float64" where
  "sigmoid64 x = exp64 (neg64 (logaddexp64 (Finite 0) (neg64 x)))"

definition inverse_sigmoid64 :: "float64 \<Rightarrow> float64" where
  "inverse_sigmoid64 x = log64 (div64 x (sub64 (Finite 1) x))"

text \<open>
  \<open>np.clip(x, lo, hi)\<close> with finite bounds: \<open>minimum(maximum(x, lo), hi)\<close>, and both
  propagate nan, so nan is not clipped.
\<close>

fun clip64 :: "float64 \<Rightarrow> real \<Rightarrow> real \<Rightarrow> float64" where
  "clip64 NaN lo hi = NaN"
| "clip64 (Finite x) lo hi = Finite (min (max x lo) hi)"
| "clip64 PosInf lo hi = Finite hi"
| "clip64 NegInf lo hi = Finite (min lo hi)"

text \<open>
  \<open>np.heaviside\<close> of nan is nan, and \<open>.astype(bool)\<close> makes every value but zero true,
  nan too; \<open>.astype(float)\<close> of a bool, which numpy applies before it multiplies a bool
  by a float, is 1 or 0. A comparison with nan is false.
\<close>

fun heaviside64 :: "float64 \<Rightarrow> float64 \<Rightarrow> float64" where
  "heaviside64 NaN x2 = NaN"
| "heaviside64 PosInf x2 = Finite 1"
| "heaviside64 NegInf x2 = Finite 0"
| "heaviside64 (Finite x1) x2 = (if x1 < 0 then Finite 0 else if x1 = 0 then x2 else Finite 1)"

definition astype_bool64 :: "float64 \<Rightarrow> bool" where
  "astype_bool64 x = (x \<noteq> Finite 0)"

definition astype_float64 :: "bool \<Rightarrow> float64" where
  "astype_float64 b = (if b then Finite 1 else Finite 0)"

fun less64 :: "float64 \<Rightarrow> real \<Rightarrow> bool" where
  "less64 (Finite x) c = (x < c)"
| "less64 NegInf c = True"
| "less64 x c = False"

fun greater64 :: "float64 \<Rightarrow> real \<Rightarrow> bool" where
  "greater64 (Finite x) c = (x > c)"
| "greater64 PosInf c = True"
| "greater64 x c = False"

text \<open>
  The sum of an array, added from the first entry on.
\<close>

definition sum64 :: "float64 list \<Rightarrow> float64" where
  "sum64 xs = foldl add64 (Finite 0) xs"

record ndarray64 =
  fshape0 :: nat
  fshape1 :: nat
  fshape2 :: nat
  felem :: "nat \<Rightarrow> nat \<Rightarrow> nat \<Rightarrow> float64"

text \<open>
  \<open>np.array(xs)\<close> of a rectangular nested list of finite numbers with no empty axis.
\<close>

definition array64 :: "real list list list \<Rightarrow> ndarray64" where
  "array64 xs = \<lparr>fshape0 = length xs,
                 fshape1 = (case xs of [] \<Rightarrow> 0 | r # _ \<Rightarrow> length r),
                 fshape2 = (case xs of [] \<Rightarrow> 0 | r # _ \<Rightarrow> (case r of [] \<Rightarrow> 0 | c # _ \<Rightarrow> length c)),
                 felem = (\<lambda>i j k. Finite (xs ! i ! j ! k))\<rparr>"

text \<open>
  The loop body of each step, line by line as in the first embedding, with the float
  operations in the order in which the source applies them:
  \<open>(learning_rate * gate_values[:, :, None]) * grad[:, None]\<close> and
  \<open>((r_out[:, None] - target) * h_in[None]) * update_indicator[:, None]\<close>. The gate
  multiplies; it does not select.
\<close>

definition h_dot64 :: "ndarray64 \<Rightarrow> float64 list \<Rightarrow> nat \<Rightarrow> nat \<Rightarrow> float64" where
  "h_dot64 h side_info n b = sum64 (map (\<lambda>d. mul64 (felem h n b d) (side_info ! d)) [0..<fshape2 h])"

definition gate_values64 :: "ndarray64 \<Rightarrow> float64 list \<Rightarrow> nat \<Rightarrow> nat \<Rightarrow> bool" where
  "gate_values64 h side_info n b = astype_bool64 (heaviside64 (h_dot64 h side_info n b) (Finite 0))"

definition gate_dot_w64 :: "(nat \<Rightarrow> nat \<Rightarrow> bool) \<Rightarrow> ndarray64 \<Rightarrow> nat \<Rightarrow> nat \<Rightarrow> nat \<Rightarrow> float64" where
  "gate_dot_w64 gate w n k m =
     sum64 (map (\<lambda>j. mul64 (astype_float64 (gate n j)) (felem w k j m)) [0..<fshape1 w])"

definition effective_weights64 :: "(nat \<Rightarrow> nat \<Rightarrow> bool) \<Rightarrow> ndarray64 \<Rightarrow> nat \<Rightarrow> nat \<Rightarrow> float64" where
  "effective_weights64 gate w n m = sum64 (map (\<lambda>k. gate_dot_w64 gate w n k m) [0..<fshape0 w])"

definition isub64 ::
  "ndarray64 \<Rightarrow> nat \<Rightarrow> real \<Rightarrow> (nat \<Rightarrow> nat \<Rightarrow> bool) \<Rightarrow> (nat \<Rightarrow> nat \<Rightarrow> float64)
     \<Rightarrow> error + ndarray64" where
  "isub64 w rows learning_rate gate grad =
     (if rows = fshape0 w \<or> rows = 1
      then Inr (w\<lparr>felem := (\<lambda>k b m.
             if k < fshape0 w \<and> b < fshape1 w \<and> m < fshape2 w
             then sub64 (felem w k b m)
                    (mul64 (mul64 (Finite learning_rate)
                              (astype_float64 (gate (if rows = 1 then 0 else k) b)))
                       (grad (if rows = 1 then 0 else k) m))
             else felem w k b m)\<rparr>)
      else Inl ValueError)"

definition layer_square_loss64 ::
  "float64 list \<Rightarrow> real \<Rightarrow> real option \<Rightarrow> bool \<Rightarrow> float64 list \<Rightarrow> ndarray64 \<Rightarrow> ndarray64
     \<Rightarrow> (error + float64 list) \<times> ndarray64" where
  "layer_square_loss64 side_info learning_rate target update r_in0 w h =
     (let r_in = Finite 1 # r_in0 in
      if fshape2 h \<noteq> length side_info then (Inl ValueError, w) else
      let gate = gate_values64 h side_info in
      if fshape1 h \<noteq> fshape1 w then (Inl ValueError, w) else
      let ew = effective_weights64 gate w in
      if fshape2 w \<noteq> length r_in then (Inl ValueError, w) else
      let r_out = map (\<lambda>n. sum64 (map (\<lambda>m. mul64 (ew n m) (r_in ! m)) [0..<fshape2 w]))
                    [0..<fshape0 h] in
      if update then
        (case target of
           None \<Rightarrow> (Inl TypeError, w)
         | Some t \<Rightarrow>
             let grad = (\<lambda>n m. mul64 (sub64 (r_out ! n) (Finite t)) (r_in ! m)) in
             (case isub64 w (fshape0 h) learning_rate gate grad of
                Inl e \<Rightarrow> (Inl e, w)
              | Inr w' \<Rightarrow> (Inr r_out, w')))
      else (Inr r_out, w))"

definition layer_bernoulli64 ::
  "float64 list \<Rightarrow> real \<Rightarrow> real \<Rightarrow> real option \<Rightarrow> bool \<Rightarrow> float64 list \<Rightarrow> ndarray64 \<Rightarrow> ndarray64
     \<Rightarrow> (error + float64 list) \<times> ndarray64" where
  "layer_bernoulli64 side_info learning_rate epsilon target update r_in0 w h =
     (let r_in = sigmoid64 (Finite 1) # r_in0;
          h_in = map inverse_sigmoid64 r_in in
      if fshape2 h \<noteq> length side_info then (Inl ValueError, w) else
      let gate = gate_values64 h side_info in
      if fshape1 h \<noteq> fshape1 w then (Inl ValueError, w) else
      let ew = effective_weights64 gate w in
      if fshape2 w \<noteq> length h_in then (Inl ValueError, w) else
      let h_out = map (\<lambda>n. sum64 (map (\<lambda>m. mul64 (ew n m) (h_in ! m)) [0..<fshape2 w]))
                    [0..<fshape0 h];
          r_out = map (\<lambda>x. clip64 (sigmoid64 x) epsilon (1 - epsilon)) h_out in
      if update then
        (case target of
           None \<Rightarrow> (Inl TypeError, w)
         | Some t \<Rightarrow>
             let update_indicator =
                   (\<lambda>n. less64 (r_out ! n) (1 - epsilon) \<and> greater64 (r_out ! n) epsilon);
                 grad = (\<lambda>n m. mul64 (mul64 (sub64 (r_out ! n) (Finite t)) (h_in ! m))
                                   (astype_float64 (update_indicator n))) in
             (case isub64 w (fshape0 h) learning_rate gate grad of
                Inl e \<Rightarrow> (Inl e, w)
              | Inr w' \<Rightarrow> (Inr r_out, w')))
      else (Inr r_out, w))"

text \<open>
  The loop and the two steps. The loss of the square-loss step is
  \<open>(target - r_out)**2 / 2\<close>, that of the Bernoulli step
  \<open>-(target * r_out + (1 - target) * (1 - r_out))\<close>.
\<close>

fun for_layers64 ::
  "(float64 list \<Rightarrow> ndarray64 \<Rightarrow> ndarray64 \<Rightarrow> (error + float64 list) \<times> ndarray64)
     \<Rightarrow> float64 list \<Rightarrow> float64 list option \<Rightarrow> ndarray64 list \<Rightarrow> ndarray64 list
     \<Rightarrow> (error + float64 list option) \<times> ndarray64 list" where
  "for_layers64 body r_in r_out (w # weights) (h # hyperplanes) =
     (case body r_in w h of
        (Inl e, w') \<Rightarrow> (Inl e, w' # weights)
      | (Inr r, w') \<Rightarrow>
          (case for_layers64 body r (Some r) weights hyperplanes of
             (res, weights') \<Rightarrow> (res, w' # weights')))"
| "for_layers64 body r_in r_out weights hyperplanes = (Inr r_out, weights)"

definition step_square_loss64 ::
  "float64 list \<Rightarrow> ndarray64 list \<Rightarrow> ndarray64 list \<Rightarrow> real \<Rightarrow> real \<Rightarrow> real option \<Rightarrow> bool
     \<Rightarrow> (error + float64 \<times> float64) \<times> ndarray64 list" where
  "step_square_loss64 inputs weights hyperplanes hyperplane_bias_magnitude learning_rate target update =
     (let r_in = inputs;
          side_info = Finite hyperplane_bias_magnitude # inputs in
      case for_layers64 (layer_square_loss64 side_info learning_rate target update)
             r_in None weights hyperplanes of
        (Inl e, weights') \<Rightarrow> (Inl e, weights')
      | (Inr None, weights') \<Rightarrow> (Inl UnboundLocalError, weights')
      | (Inr (Some []), weights') \<Rightarrow> (Inl IndexError, weights')
      | (Inr (Some (r0 # _)), weights') \<Rightarrow>
          (case target of
             None \<Rightarrow> (Inl TypeError, weights')
           | Some t \<Rightarrow>
               (Inr (r0, div64 (mul64 (sub64 (Finite t) r0) (sub64 (Finite t) r0)) (Finite 2)),
                weights')))"

definition step_bernoulli64 ::
  "float64 list \<Rightarrow> ndarray64 list \<Rightarrow> ndarray64 list \<Rightarrow> real \<Rightarrow> real \<Rightarrow> real \<Rightarrow> real option \<Rightarrow> bool
     \<Rightarrow> (error + float64 \<times> float64) \<times> ndarray64 list" where
  "step_bernoulli64 inputs weights hyperplanes hyperplane_bias_magnitude learning_rate epsilon target update =
     (let r_in = map (\<lambda>x. clip64 (sigmoid64 x) epsilon (1 - epsilon)) inputs;
          side_info = Finite hyperplane_bias_magnitude # inputs in
      case for_layers64 (layer_bernoulli64 side_info learning_rate epsilon target update)
             r_in None weights hyperplanes of
        (Inl e, weights') \<Rightarrow> (Inl e, weights')
      | (Inr None, weights') \<Rightarrow> (Inl UnboundLocalError, weights')
      | (Inr (Some []), weights') \<Rightarrow> (Inl IndexError, weights')
      | (Inr (Some (r0 # _)), weights') \<Rightarrow>
          (case target of
             None \<Rightarrow> (Inl TypeError, weights')
           | Some t \<Rightarrow>
               (Inr (r0, neg64 (add64 (mul64 (Finite t) r0)
                                  (mul64 (sub64 (Finite 1) (Finite t)) (sub64 (Finite 1) r0)))),
                weights')))"

section \<open>Operations the properties speak of\<close>


text \<open>
  The shapes of a network as the notebook builds it. For the neuron counts
  \<open>num_neurons\<close>, of which the last is 1, \<open>weights_[i]\<close> has the shape
  \<open>(num_neurons[i], num_branches, num_inputs[i])\<close> and \<open>hyperplanes_[i]\<close> the shape
  \<open>(num_neurons[i], num_branches, input_dim + 1)\<close>, where \<open>num_inputs[0]\<close> is
  \<open>input_dim + 1\<close> and \<open>num_inputs[i + 1]\<close> is \<open>num_neurons[i] + 1\<close>. The number of branches
  may differ from layer to layer here.
\<close>

fun well_shaped :: "nat \<Rightarrow> nat \<Rightarrow> ndarray3 list \<Rightarrow> ndarray3 list \<Rightarrow> bool" where
  "well_shaped input_dim num_input [] [] = True"
| "well_shaped input_dim num_input (w # ws) (h # hs) =
     (shape0 h = shape0 w \<and> shape1 h = shape1 w
      \<and> shape2 h = input_dim + 1 \<and> shape2 w = num_input
      \<and> (if ws = [] then shape0 w = 1 else True)
      \<and> well_shaped input_dim (shape0 w + 1) ws hs)"
| "well_shaped input_dim num_input ws hs = False"

section \<open>Properties\<close>

subsection \<open>Sums, the sigmoid and the clip\<close>

declare hstack_def [simp]

lemma sum_list_zero: "(\<And>x. x \<in> set xs \<Longrightarrow> f x = (0::real)) \<Longrightarrow> (\<Sum>x\<leftarrow>xs. f x) = 0"
  by (induction xs) auto


lemma sigmoid_eq: "sigmoid x = 1 / (1 + exp (- x))"
proof -
  have "0 < 1 + exp (- x)" by (simp add: add_pos_pos)
  then show ?thesis
    by (simp add: sigmoid_def logaddexp_def exp_minus divide_inverse)
qed

lemma sigmoid_pos: "0 < sigmoid x"
  by (simp add: sigmoid_def)

lemma sigmoid_less_1: "sigmoid x < 1"
proof -
  have "1 < 1 + exp (- x)" by simp
  then have "1 / (1 + exp (- x)) < 1 / 1"
    by (intro divide_strict_left_mono) (simp_all add: add_pos_pos)
  then show ?thesis unfolding sigmoid_eq by simp
qed

lemma sigmoid_0: "sigmoid 0 = 1 / 2"
  by (simp add: sigmoid_eq)

lemma inverse_sigmoid_sigmoid: "inverse_sigmoid (sigmoid x) = Some x"
proof -
  define a where "a = exp (- x)"
  have a: "0 < a" by (simp add: a_def)
  have "1 - 1 / (1 + a) = a / (1 + a)"
    using a by (simp add: field_simps)
  then have "(1 / (1 + a)) / (1 - 1 / (1 + a)) = 1 / a"
    using a by (simp add: field_simps)
  moreover have "1 / a = exp x"
    by (simp add: a_def exp_minus inverse_eq_divide)
  ultimately have "sigmoid x / (1 - sigmoid x) = exp x"
    unfolding sigmoid_eq a_def[symmetric] by simp
  then show ?thesis
    by (simp add: inverse_sigmoid_def sigmoid_pos sigmoid_less_1)
qed

lemma clip_sigmoid_unit:
  "epsilon < 1 \<Longrightarrow> 0 < clip (sigmoid x) epsilon (1 - epsilon) \<and> clip (sigmoid x) epsilon (1 - epsilon) < 1"
  using sigmoid_pos[of x] sigmoid_less_1[of x] by (auto simp add: clip_def min_def max_def)

lemma clip_sigmoid_0: "epsilon \<le> 1 / 2 \<Longrightarrow> clip (sigmoid 0) epsilon (1 - epsilon) = 1 / 2"
  by (simp add: sigmoid_0 clip_def)

lemma inverse_sigmoid_clip:
  "epsilon < 1 \<Longrightarrow> inverse_sigmoid (clip (sigmoid x) epsilon (1 - epsilon))
     = Some (ln (clip (sigmoid x) epsilon (1 - epsilon) / (1 - clip (sigmoid x) epsilon (1 - epsilon))))"
  using clip_sigmoid_unit[of epsilon x] by (simp add: inverse_sigmoid_def)

lemma sigmoid_minus_100: "sigmoid (- 100) < 1 / 100"
proof -
  have "1 + (100::real) \<le> exp 100" by (rule exp_ge_add_one_self)
  then have "(100::real) < 1 + exp 100" by simp
  then have "1 / (1 + exp 100) < 1 / (100::real)"
    by (intro divide_strict_left_mono) simp_all
  then show ?thesis by (simp add: sigmoid_eq)
qed

lemma clip_sigmoid_minus_100: "clip (sigmoid (- 100)) (1 / 100) (1 - 1 / 100) = 1 / 100"
  using sigmoid_minus_100 by (simp add: clip_def)

lemma inverse_sigmoid_half: "inverse_sigmoid (1 / 2) = Some 0"
  by (simp add: inverse_sigmoid_def)

lemma inverse_sigmoid_array_bias_half:
  "inverse_sigmoid_array (hstack (sigmoid 1) [1 / 2]) = Some [1, 0]"
  by (simp add: inverse_sigmoid_sigmoid inverse_sigmoid_half)

subsection \<open>The loop over the layers\<close>

lemma for_layers_Cons:
  "for_layers body r_in r_out (w # ws) (h # hs) =
     (case body r_in w h of
        (Inl e, w') \<Rightarrow> (Inl e, w' # ws)
      | (Inr r, w') \<Rightarrow> (fst (for_layers body r (Some r) ws hs),
                       w' # snd (for_layers body r (Some r) ws hs)))"
  by (simp split: prod.splits sum.splits)

lemma for_layers_unchanged:
  "(\<And>r w h. snd (body r w h) = w) \<Longrightarrow> snd (for_layers body r_in r_out ws hs) = ws"
proof (induction body r_in r_out ws hs rule: for_layers.induct)
  case (1 body r_in r_out w weights h hyperplanes)
  obtain res w' where b: "body r_in w h = (res, w')" by (cases "body r_in w h")
  with "1.prems"[of r_in w h] have w': "w' = w" by simp
  show ?case
  proof (cases res)
    case (Inl e)
    with b w' show ?thesis by simp
  next
    case (Inr r)
    have "snd (for_layers body r (Some r) weights hyperplanes) = weights"
      using "1.IH"[of "Inr r" w' r] b Inr "1.prems" by simp
    with b w' Inr show ?thesis
      by (simp only: for_layers_Cons) simp
  qed
qed simp_all

lemma for_layers_result:
  assumes body: "\<And>ri w h r w'. w \<in> set ws \<Longrightarrow> body ri w h = (Inr r, w') \<Longrightarrow> P r"
  shows "fst (for_layers body r_in r_out ws hs) = Inr (Some r)
    \<Longrightarrow> (\<And>r0. r_out = Some r0 \<Longrightarrow> P r0) \<Longrightarrow> P r"
  using body
proof (induction ws arbitrary: hs r_in r_out)
  case Nil
  then show ?case by simp
next
  case (Cons w ws)
  show ?case
  proof (cases hs)
    case Nil
    with Cons.prems show ?thesis by simp
  next
    case hs: (Cons h hs')
    obtain res w' where b: "body r_in w h = (res, w')" by (cases "body r_in w h")
    show ?thesis
    proof (cases res)
      case (Inl e)
      with b hs Cons.prems(1) show ?thesis by simp
    next
      case (Inr r1)
      with b have P1: "P r1" using Cons.prems(3)[of w r_in h r1 w'] by simp
      from b hs Inr Cons.prems(1)
      have "fst (for_layers body r1 (Some r1) ws hs') = Inr (Some r)"
        by (simp only: for_layers_Cons) simp
      have "\<And>ri w h r w'. w \<in> set ws \<Longrightarrow> body ri w h = (Inr r, w') \<Longrightarrow> P r"
        using Cons.prems(3) by (meson list.set_intros(2))
      from Cons.IH[OF \<open>fst (for_layers body r1 (Some r1) ws hs') = Inr (Some r)\<close> _ this] P1
      show ?thesis by simp
    qed
  qed
qed


subsection \<open>One layer\<close>

lemma layer_square_loss_no_update:
  "snd (layer_square_loss side_info lr target False r_in w h) = w"
  by (simp add: layer_square_loss_def Let_def)

lemma layer_bernoulli_no_update:
  "snd (layer_bernoulli side_info lr epsilon target False r_in w h) = w"
  by (simp add: layer_bernoulli_def Let_def split: option.splits)

subsection \<open>What the steps leave of the weights\<close>

lemma snd_step_square_loss:
  "snd (step_square_loss inputs weights hyperplanes hbm lr target update)
     = snd (for_layers (layer_square_loss (hstack hbm inputs) lr target update) inputs None weights hyperplanes)"
  by (simp add: step_square_loss_def Let_def split: prod.splits sum.splits option.splits list.splits)

lemma snd_step_bernoulli:
  "snd (step_bernoulli inputs weights hyperplanes hbm lr epsilon target update)
     = snd (for_layers (layer_bernoulli (hstack hbm inputs) lr epsilon target update)
              (map (\<lambda>x. clip (sigmoid x) epsilon (1 - epsilon)) inputs) None weights hyperplanes)"
  by (simp add: step_bernoulli_def Let_def split: prod.splits sum.splits option.splits list.splits)

lemma step_square_loss_no_update:
  "snd (step_square_loss inputs weights hyperplanes hbm lr target False) = weights"
  unfolding snd_step_square_loss
  by (rule for_layers_unchanged) (rule layer_square_loss_no_update)

lemma step_bernoulli_no_update:
  "snd (step_bernoulli inputs weights hyperplanes hbm lr epsilon target False) = weights"
  unfolding snd_step_bernoulli
  by (rule for_layers_unchanged) (rule layer_bernoulli_no_update)


subsection \<open>What the steps return\<close>

lemma effective_weights_zero:
  assumes "\<forall>k<shape0 w. \<forall>b<shape1 w. \<forall>m<shape2 w. elem w k b m = 0" "m < shape2 w"
  shows "effective_weights gate w n m = 0"
  unfolding effective_weights_def gate_dot_w_def
  using assms by (intro sum_list_zero) simp

lemma layer_square_loss_zero:
  assumes "layer_square_loss side_info lr target update r_in w h = (Inr r, w')"
    and "\<forall>k<shape0 w. \<forall>b<shape1 w. \<forall>m<shape2 w. elem w k b m = 0"
  shows "\<forall>x\<in>set r. x = 0"
proof -
  have "(\<Sum>m\<leftarrow>[0..<shape2 w]. effective_weights (gate_values h side_info) w n m * (hstack 1 r_in) ! m) = 0" for n
    using assms(2) by (intro sum_list_zero) (simp add: effective_weights_zero)
  with assms(1) show ?thesis
    by (auto simp add: layer_square_loss_def Let_def split: if_splits option.splits sum.splits)
qed

lemma layer_bernoulli_zero:
  assumes "layer_bernoulli side_info lr epsilon target update r_in w h = (Inr r, w')"
    and "\<forall>k<shape0 w. \<forall>b<shape1 w. \<forall>m<shape2 w. elem w k b m = 0"
  shows "\<forall>x\<in>set r. x = clip (sigmoid 0) epsilon (1 - epsilon)"
proof -
  have "(\<Sum>m\<leftarrow>[0..<shape2 w]. effective_weights (gate_values h side_info) w n m * h_in ! m) = 0" for n h_in
    using assms(2) by (intro sum_list_zero) (simp add: effective_weights_zero)
  with assms(1) show ?thesis
    by (auto simp add: layer_bernoulli_def Let_def split: if_splits option.splits sum.splits)
qed

lemma layer_bernoulli_clipped:
  assumes "layer_bernoulli side_info lr epsilon target update r_in w h = (Inr r, w')"
  shows "\<forall>x\<in>set r. \<exists>y. x = clip (sigmoid y) epsilon (1 - epsilon)"
  using assms
  by (auto simp add: layer_bernoulli_def Let_def split: if_splits option.splits sum.splits)

lemma fst_step_square_loss_Inr:
  "fst (step_square_loss inputs weights hyperplanes hbm lr target update) = Inr (p, l)
    \<Longrightarrow> \<exists>r t. fst (for_layers (layer_square_loss (hstack hbm inputs) lr target update) inputs None weights hyperplanes)
            = Inr (Some (p # r)) \<and> target = Some t \<and> l = (t - p)\<^sup>2 / 2"
  by (auto simp add: step_square_loss_def Let_def split: prod.splits sum.splits option.splits list.splits)

lemma fst_step_bernoulli_Inr:
  "fst (step_bernoulli inputs weights hyperplanes hbm lr epsilon target update) = Inr (p, l)
    \<Longrightarrow> \<exists>r t. fst (for_layers (layer_bernoulli (hstack hbm inputs) lr epsilon target update)
              (map (\<lambda>x. clip (sigmoid x) epsilon (1 - epsilon)) inputs) None weights hyperplanes)
            = Inr (Some (p # r)) \<and> target = Some t \<and> l = - (t * p + (1 - t) * (1 - p))"
  by (auto simp add: step_bernoulli_def Let_def split: prod.splits sum.splits option.splits list.splits)


subsection \<open>Runs that stay in the reals\<close>

lemma inverse_sigmoid_array_Some:
  "(\<forall>x\<in>set xs. 0 < x \<and> x < 1) \<Longrightarrow> \<exists>ys. inverse_sigmoid_array xs = Some ys"
  by (induction xs) (auto simp add: inverse_sigmoid_def)

lemma layer_bernoulli_finite:
  assumes "\<forall>x\<in>set r_in. 0 < x \<and> x < 1"
  shows "fst (layer_bernoulli side_info lr epsilon target update r_in w h) \<noteq> Inl NonFinite"
proof -
  from assms have "\<forall>x\<in>set (hstack (sigmoid 1) r_in). 0 < x \<and> x < 1"
    by (simp add: sigmoid_pos sigmoid_less_1)
  from inverse_sigmoid_array_Some[OF this] obtain h_in
    where "inverse_sigmoid_array (hstack (sigmoid 1) r_in) = Some h_in" by blast
  then show ?thesis
    by (auto simp add: layer_bernoulli_def Let_def isub_def simp del: inverse_sigmoid_array.simps
        split: option.splits sum.splits)
qed

lemma layer_square_loss_finite:
  "fst (layer_square_loss side_info lr target update r_in w h) \<noteq> Inl NonFinite"
  by (auto simp add: layer_square_loss_def Let_def isub_def split: option.splits sum.splits)

lemma for_layers_finite:
  assumes safe: "\<And>ri w h. I ri \<Longrightarrow> fst (body ri w h) \<noteq> Inl NonFinite"
    and keep: "\<And>ri w h r w'. body ri w h = (Inr r, w') \<Longrightarrow> I r"
  shows "I r_in \<Longrightarrow> fst (for_layers body r_in r_out ws hs) \<noteq> Inl NonFinite"
proof (induction ws arbitrary: hs r_in r_out)
  case Nil
  then show ?case by simp
next
  case (Cons w ws)
  show ?case
  proof (cases hs)
    case Nil
    then show ?thesis by simp
  next
    case hs: (Cons h hs')
    obtain res w' where b: "body r_in w h = (res, w')" by (cases "body r_in w h")
    show ?thesis
    proof (cases res)
      case (Inl e)
      with b hs safe[OF Cons.prems, of w h] show ?thesis by simp
    next
      case (Inr r1)
      with b keep have "I r1" by simp
      from Cons.IH[OF this, of "Some r1" hs'] b hs Inr show ?thesis
        by (simp only: for_layers_Cons) simp
    qed
  qed
qed

lemma for_layers_square_loss_finite:
  "fst (for_layers (layer_square_loss side_info lr target update) r_in r_out weights hyperplanes)
     \<noteq> Inl NonFinite"
  by (rule for_layers_finite[where I = "\<lambda>_. True"]) (simp_all add: layer_square_loss_finite)

lemma for_layers_bernoulli_finite:
  assumes "epsilon < 1"
  shows "fst (for_layers (layer_bernoulli side_info lr epsilon target update)
                (map (\<lambda>x. clip (sigmoid x) epsilon (1 - epsilon)) inputs) r_out weights hyperplanes)
           \<noteq> Inl NonFinite"
proof (rule for_layers_finite[where I = "\<lambda>r. \<forall>x\<in>set r. 0 < x \<and> x < 1"])
  show "\<forall>x\<in>set (map (\<lambda>x. clip (sigmoid x) epsilon (1 - epsilon)) inputs). 0 < x \<and> x < 1"
    using clip_sigmoid_unit[OF assms] by auto
next
  fix ri w h r w'
  assume "layer_bernoulli side_info lr epsilon target update ri w h = (Inr r, w')"
  from layer_bernoulli_clipped[OF this] show "\<forall>x\<in>set r. 0 < x \<and> x < 1"
    using clip_sigmoid_unit[OF assms] by auto
qed (rule layer_bernoulli_finite)

text \<open>
  The square-loss step never leaves the reals, and the Bernoulli step does not when
  \<open>epsilon\<close> is below 1: the clip keeps every argument of \<open>inverse_sigmoid\<close> strictly
  between 0 and 1.
\<close>

lemma step_square_loss_finite:
  "fst (step_square_loss inputs weights hyperplanes hbm lr target update) \<noteq> Inl NonFinite"
  using for_layers_square_loss_finite[of "hstack hbm inputs" lr target update inputs None
      weights hyperplanes]
  by (auto simp add: step_square_loss_def Let_def
      split: prod.splits sum.splits option.splits list.splits)

lemma step_bernoulli_finite:
  "epsilon < 1
    \<Longrightarrow> fst (step_bernoulli inputs weights hyperplanes hbm lr epsilon target update) \<noteq> Inl NonFinite"
  using for_layers_bernoulli_finite[of epsilon "hstack hbm inputs" lr target update inputs None
      weights hyperplanes]
  by (auto simp add: step_bernoulli_def Let_def
      split: prod.splits sum.splits option.splits list.splits)

lemma step_square_loss_None:
  "\<exists>e. fst (step_square_loss inputs weights hyperplanes hbm lr None update) = Inl e"
  by (auto simp add: step_square_loss_def Let_def
      split: prod.splits sum.splits option.splits list.splits)

lemma step_bernoulli_None:
  "\<exists>e. fst (step_bernoulli inputs weights hyperplanes hbm lr epsilon None update) = Inl e"
  by (auto simp add: step_bernoulli_def Let_def
      split: prod.splits sum.splits option.splits list.splits)

lemma isub_elem:
  "isub w rows lr gate grad = Inr w' \<Longrightarrow> rows = shape0 w
    \<Longrightarrow> n < shape0 w \<Longrightarrow> b < shape1 w \<Longrightarrow> m < shape2 w
    \<Longrightarrow> elem w' n b m = elem w n b m - lr * of_bool (gate n b) * grad n m"
  by (auto simp add: isub_def split: if_splits)

subsection \<open>Float arithmetic\<close>

lemma of_exact_Finite: "\<bar>x\<bar> < 2 ^ 1024 - 2 ^ 970 \<Longrightarrow> of_exact x = Finite x"
  by (simp add: of_exact_def abs_less_iff)

lemma of_exact_0: "of_exact 0 = Finite 0"
  by (simp add: of_exact_def)

lemma sub64_zero: "is_float64 x \<Longrightarrow> sub64 x (Finite 0) = x"
  by (cases x) (simp_all add: sub64_def of_exact_Finite)

lemma sub64_NaN: "sub64 x NaN = NaN"
  by (cases x) (simp_all add: sub64_def)

lemma mul64_zero_gate:
  "mul64 (mul64 (Finite lr) (astype_float64 False)) g = Finite 0
   \<or> mul64 (mul64 (Finite lr) (astype_float64 False)) g = NaN"
  by (cases g) (simp_all add: astype_float64_def of_exact_0)

lemma sigmoid64_Finite: "0 \<le> x \<Longrightarrow> sigmoid64 (Finite x) = Finite (sigmoid x)"
proof -
  assume x: "0 \<le> x"
  have e: "0 < exp (- x)" "exp (- x) \<le> 1" using x by simp_all
  have "1 < 1 + exp (- x)" by simp
  then have "0 < ln (1 + exp (- x))" by (rule ln_gt_zero)
  moreover have "ln (1 + exp (- x)) \<le> ln 2"
    using e by (subst ln_le_cancel_iff) (simp_all add: add_pos_pos)
  moreover have "ln (2::real) < 1" using ln_2_less_1 .
  ultimately have l: "\<bar>ln (1 + exp (- x))\<bar> < 2 ^ 1024 - 2 ^ 970" by simp
  have s: "\<bar>sigmoid x\<bar> < 2 ^ 1024 - 2 ^ 970"
    using sigmoid_pos[of x] sigmoid_less_1[of x] by simp
  show ?thesis
    using of_exact_Finite[OF l] of_exact_Finite[OF s]
    by (simp add: sigmoid64_def sigmoid_def logaddexp_def)
qed

lemma sigmoid_1_bounds: "1 / 100 \<le> sigmoid 1" "sigmoid 1 \<le> 99 / 100"
proof -
  define a :: real where "a = exp (- 1)"
  have e3: "exp (1::real) \<le> 3" by (rule exp_le)
  have "inverse (3::real) \<le> inverse (exp 1)"
    using e3 by (intro le_imp_inverse_le) simp_all
  then have lo: "1 / 3 \<le> a"
    unfolding a_def exp_minus by (simp add: inverse_eq_divide)
  have hi: "a \<le> 1" by (simp add: a_def)
  have s: "sigmoid 1 = 1 / (1 + a)" by (simp add: sigmoid_eq a_def)
  from lo hi show "1 / 100 \<le> sigmoid 1"
    unfolding s by (simp add: field_simps)
  from lo hi show "sigmoid 1 \<le> 99 / 100"
    unfolding s by (simp add: field_simps)
qed

lemma clip_sigmoid_1: "min (max (sigmoid 1) (1 / 100)) (99 / 100) = sigmoid 1"
  using sigmoid_1_bounds by (simp add: min_def max_def)

lemma sigmoid_ratio: "sigmoid x / (1 - sigmoid x) = exp x"
proof -
  from inverse_sigmoid_sigmoid[of x] have "ln (sigmoid x / (1 - sigmoid x)) = x"
    by (simp add: inverse_sigmoid_def sigmoid_pos sigmoid_less_1)
  moreover have "0 < sigmoid x / (1 - sigmoid x)"
    using sigmoid_pos[of x] sigmoid_less_1[of x] by simp
  ultimately show ?thesis by (metis exp_ln)
qed

lemma inverse_sigmoid64_sigmoid_1: "inverse_sigmoid64 (Finite (sigmoid 1)) = Finite 1"
proof -
  have s: "0 < sigmoid 1" "sigmoid 1 < 1" by (simp_all add: sigmoid_pos sigmoid_less_1)
  then have a: "of_exact (1 - sigmoid 1) = Finite (1 - sigmoid 1)"
    by (intro of_exact_Finite) simp
  have "exp (1::real) \<le> 3" by (rule exp_le)
  then have b: "of_exact (exp 1) = Finite (exp 1)"
    by (intro of_exact_Finite) simp
  have c: "of_exact 1 = Finite 1" by (intro of_exact_Finite) simp
  from s a b c show ?thesis
    by (simp add: inverse_sigmoid64_def sub64_def sigmoid_ratio)
qed

lemma sigmoid64_NaN: "sigmoid64 NaN = NaN"
  by (simp add: sigmoid64_def)

lemma sigmoid64_0: "sigmoid64 (Finite 0) = Finite (1 / 2)"
  using sigmoid64_Finite[of 0] by (simp add: sigmoid_0)

subsection \<open>The loop and the layers over float64\<close>

lemma for_layers64_Cons:
  "for_layers64 body r_in r_out (w # ws) (h # hs) =
     (case body r_in w h of
        (Inl e, w') \<Rightarrow> (Inl e, w' # ws)
      | (Inr r, w') \<Rightarrow> (fst (for_layers64 body r (Some r) ws hs),
                       w' # snd (for_layers64 body r (Some r) ws hs)))"
  by (simp split: prod.splits sum.splits)

lemma for_layers64_unchanged:
  assumes body: "\<And>r w h. snd (body r w h) = w"
  shows "snd (for_layers64 body r_in r_out ws hs) = ws"
proof (induction ws arbitrary: hs r_in r_out)
  case Nil
  then show ?case by simp
next
  case (Cons w ws)
  show ?case
  proof (cases hs)
    case Nil
    then show ?thesis by simp
  next
    case hs: (Cons h hs')
    obtain res w' where b: "body r_in w h = (res, w')" by (cases "body r_in w h")
    with body[of r_in w h] have w': "w' = w" by simp
    show ?thesis
    proof (cases res)
      case (Inl e)
      with b w' hs show ?thesis by simp
    next
      case (Inr r)
      from Cons.IH[of r "Some r" hs'] b w' hs Inr show ?thesis
        by (simp only: for_layers64_Cons) simp
    qed
  qed
qed

lemma for_layers64_length:
  "length (snd (for_layers64 body r_in r_out ws hs)) = length ws"
proof (induction ws arbitrary: hs r_in r_out)
  case Nil
  then show ?case by simp
next
  case (Cons w ws)
  show ?case
  proof (cases hs)
    case Nil
    then show ?thesis by simp
  next
    case hs: (Cons h hs')
    obtain res w' where b: "body r_in w h = (res, w')" by (cases "body r_in w h")
    show ?thesis
    proof (cases res)
      case (Inl e)
      with b hs show ?thesis by simp
    next
      case (Inr r)
      from Cons.IH[of r "Some r" hs'] b hs Inr show ?thesis
        by (simp only: for_layers64_Cons) simp
    qed
  qed
qed

lemma for_layers64_nth:
  assumes body: "\<And>r w h. Q w h (snd (body r w h))"
    and refl: "\<And>w h. Q w h w"
  shows "i < length ws \<Longrightarrow> i < length hs
    \<Longrightarrow> Q (ws ! i) (hs ! i) (snd (for_layers64 body r_in r_out ws hs) ! i)"
proof (induction ws arbitrary: hs i r_in r_out)
  case Nil
  then show ?case by simp
next
  case (Cons w ws)
  from Cons.prems obtain h hs' where hs: "hs = h # hs'" by (cases hs) auto
  obtain res w' where b: "body r_in w h = (res, w')" by (cases "body r_in w h")
  from body[of w h r_in] b have q: "Q w h w'" by simp
  show ?case
  proof (cases res)
    case (Inl e)
    with b hs q refl show ?thesis by (cases i) simp_all
  next
    case (Inr r)
    show ?thesis
    proof (cases i)
      case 0
      with b hs q Inr show ?thesis by (simp only: for_layers64_Cons) simp
    next
      case (Suc j)
      with Cons.prems hs have "j < length ws" "j < length hs'" by simp_all
      from Cons.IH[OF this, of r "Some r"] b hs Inr Suc show ?thesis
        by (simp only: for_layers64_Cons) simp
    qed
  qed
qed

lemma for_layers64_ran:
  "fst (for_layers64 body r_in None ws hs) = Inr (Some r) \<Longrightarrow> ws \<noteq> [] \<and> hs \<noteq> []"
  by (cases ws; cases hs) simp_all

lemma for_layers64_result:
  assumes body: "\<And>ri w h r w'. body ri w h = (Inr r, w') \<Longrightarrow> P r"
  shows "fst (for_layers64 body r_in r_out ws hs) = Inr (Some r)
    \<Longrightarrow> (\<And>r0. r_out = Some r0 \<Longrightarrow> P r0) \<Longrightarrow> P r"
proof (induction ws arbitrary: hs r_in r_out)
  case Nil
  then show ?case by simp
next
  case (Cons w ws)
  show ?case
  proof (cases hs)
    case Nil
    with Cons.prems show ?thesis by simp
  next
    case hs: (Cons h hs')
    obtain res w' where b: "body r_in w h = (res, w')" by (cases "body r_in w h")
    show ?thesis
    proof (cases res)
      case (Inl e)
      with b hs Cons.prems(1) show ?thesis by simp
    next
      case (Inr r1)
      with b have P1: "P r1" using body[of r_in w h r1 w'] by simp
      from b hs Inr Cons.prems(1)
      have "fst (for_layers64 body r1 (Some r1) ws hs') = Inr (Some r)"
        by (simp only: for_layers64_Cons) simp
      from Cons.IH[OF this] P1 show ?thesis by simp
    qed
  qed
qed

lemma isub64_gate_false:
  assumes "isub64 w rows lr gate grad = Inr w'" "rows = fshape0 w" "\<not> gate n b"
    "is_float64 (felem w n b m)"
  shows "felem w' n b m = felem w n b m \<or> felem w' n b m = NaN"
proof (cases "n < fshape0 w \<and> b < fshape1 w \<and> m < fshape2 w")
  case True
  with assms(2) have idx: "(if rows = 1 then 0 else n) = n" by auto
  from assms(1) True idx
  have e: "felem w' n b m = sub64 (felem w n b m)
             (mul64 (mul64 (Finite lr) (astype_float64 (gate n b))) (grad n m))"
    by (auto simp add: isub64_def split: if_splits)
  from mul64_zero_gate[of lr "grad n m"] assms(3,4) show ?thesis
    unfolding e by (auto simp add: sub64_zero sub64_NaN)
next
  case False
  with assms(1) show ?thesis by (auto simp add: isub64_def split: if_splits)
qed

lemma layer_square_loss64_no_update:
  "snd (layer_square_loss64 side_info lr target False r_in w h) = w"
  by (simp add: layer_square_loss64_def Let_def)

lemma layer_bernoulli64_no_update:
  "snd (layer_bernoulli64 side_info lr epsilon target False r_in w h) = w"
  by (simp add: layer_bernoulli64_def Let_def)

lemma layer_square_loss64_cases:
  "snd (layer_square_loss64 side_info lr target update r_in w h) = w
   \<or> (\<exists>grad. isub64 w (fshape0 h) lr (gate_values64 h side_info) grad
          = Inr (snd (layer_square_loss64 side_info lr target update r_in w h)))"
  by (auto simp add: layer_square_loss64_def Let_def split: option.splits sum.splits)

lemma layer_bernoulli64_cases:
  "snd (layer_bernoulli64 side_info lr epsilon target update r_in w h) = w
   \<or> (\<exists>grad. isub64 w (fshape0 h) lr (gate_values64 h side_info) grad
          = Inr (snd (layer_bernoulli64 side_info lr epsilon target update r_in w h)))"
  by (auto simp add: layer_bernoulli64_def Let_def split: option.splits sum.splits)

lemma layer_square_loss64_frame:
  "fshape0 h = fshape0 w \<and> \<not> gate_values64 h side_info n b \<and> is_float64 (felem w n b m)
    \<longrightarrow> felem (snd (layer_square_loss64 side_info lr target update r_in w h)) n b m = felem w n b m
      \<or> felem (snd (layer_square_loss64 side_info lr target update r_in w h)) n b m = NaN"
  using layer_square_loss64_cases[of side_info lr target update r_in w h]
  by (auto dest: isub64_gate_false)

lemma layer_bernoulli64_frame:
  "fshape0 h = fshape0 w \<and> \<not> gate_values64 h side_info n b \<and> is_float64 (felem w n b m)
    \<longrightarrow> felem (snd (layer_bernoulli64 side_info lr epsilon target update r_in w h)) n b m = felem w n b m
      \<or> felem (snd (layer_bernoulli64 side_info lr epsilon target update r_in w h)) n b m = NaN"
  using layer_bernoulli64_cases[of side_info lr epsilon target update r_in w h]
  by (auto dest: isub64_gate_false)

lemma snd_step_square_loss64:
  "snd (step_square_loss64 inputs weights hyperplanes hbm lr target update)
     = snd (for_layers64 (layer_square_loss64 (Finite hbm # inputs) lr target update)
              inputs None weights hyperplanes)"
  by (simp add: step_square_loss64_def Let_def split: prod.splits sum.splits option.splits list.splits)

lemma snd_step_bernoulli64:
  "snd (step_bernoulli64 inputs weights hyperplanes hbm lr epsilon target update)
     = snd (for_layers64 (layer_bernoulli64 (Finite hbm # inputs) lr epsilon target update)
              (map (\<lambda>x. clip64 (sigmoid64 x) epsilon (1 - epsilon)) inputs) None weights hyperplanes)"
  by (simp add: step_bernoulli64_def Let_def split: prod.splits sum.splits option.splits list.splits)

lemma clip64_bounds:
  "lo \<le> hi \<Longrightarrow> clip64 x lo hi = NaN \<or> (\<exists>p. clip64 x lo hi = Finite p \<and> lo \<le> p \<and> p \<le> hi)"
  by (cases x) simp_all

lemma layer_bernoulli64_clipped:
  assumes "layer_bernoulli64 side_info lr epsilon target update r_in w h = (Inr r, w')"
  shows "\<forall>x\<in>set r. \<exists>y. x = clip64 y epsilon (1 - epsilon)"
  using assms
  by (auto simp add: layer_bernoulli64_def Let_def split: if_splits option.splits sum.splits)

lemma fst_step_bernoulli64_Inr:
  "fst (step_bernoulli64 inputs weights hyperplanes hbm lr epsilon target update) = Inr (p, l)
    \<Longrightarrow> \<exists>r. fst (for_layers64 (layer_bernoulli64 (Finite hbm # inputs) lr epsilon target update)
              (map (\<lambda>x. clip64 (sigmoid64 x) epsilon (1 - epsilon)) inputs) None weights hyperplanes)
            = Inr (Some (p # r))"
  by (auto simp add: step_bernoulli64_def Let_def split: prod.splits sum.splits option.splits list.splits)

subsection \<open>Calls that return\<close>

text \<open>
  On a network of at least one layer with the shapes the notebook builds, a call with a
  target returns a prediction and its loss, whatever the weights, the hyperplanes and
  the update flag (for the Bernoulli step with \<open>epsilon\<close> below 1).
\<close>

lemma layer_square_loss_returns:
  assumes "shape0 h = shape0 w" "shape1 h = shape1 w" "shape2 h = length side_info"
    "shape2 w = length r_in + 1"
  shows "\<exists>r. fst (layer_square_loss side_info lr (Some t) update r_in w h) = Inr r
              \<and> length r = shape0 w"
  using assms by (simp add: layer_square_loss_def Let_def isub_def)

lemma inverse_sigmoid_array_length:
  "inverse_sigmoid_array xs = Some ys \<Longrightarrow> length ys = length xs"
  by (induction xs arbitrary: ys) (auto split: option.splits)

lemma layer_bernoulli_returns:
  assumes "shape0 h = shape0 w" "shape1 h = shape1 w" "shape2 h = length side_info"
    "shape2 w = length r_in + 1" "\<forall>x\<in>set r_in. 0 < x \<and> x < 1"
  shows "\<exists>r. fst (layer_bernoulli side_info lr epsilon (Some t) update r_in w h) = Inr r
              \<and> length r = shape0 w"
proof -
  from assms(5) have "\<forall>x\<in>set (hstack (sigmoid 1) r_in). 0 < x \<and> x < 1"
    by (simp add: sigmoid_pos sigmoid_less_1)
  from inverse_sigmoid_array_Some[OF this] obtain h_in
    where h_in: "inverse_sigmoid_array (hstack (sigmoid 1) r_in) = Some h_in" by blast
  from inverse_sigmoid_array_length[OF h_in] have "length h_in = length r_in + 1" by simp
  with h_in assms(1-4) show ?thesis
    by (simp add: layer_bernoulli_def Let_def isub_def del: inverse_sigmoid_array.simps)
qed


lemma for_layers_returns:
  assumes layer: "\<And>r_in w h. I r_in \<Longrightarrow> shape0 h = shape0 w \<Longrightarrow> shape1 h = shape1 w
      \<Longrightarrow> shape2 h = input_dim + 1 \<Longrightarrow> shape2 w = length r_in + 1
      \<Longrightarrow> \<exists>r. fst (body r_in w h) = Inr r \<and> length r = shape0 w \<and> I r"
  shows "well_shaped input_dim (length r_in + 1) ws hs \<Longrightarrow> ws \<noteq> [] \<Longrightarrow> I r_in
    \<Longrightarrow> \<exists>r0. fst (for_layers body r_in r_out ws hs) = Inr (Some [r0])"
proof (induction ws arbitrary: hs r_in r_out)
  case Nil
  then show ?case by simp
next
  case (Cons w ws)
  from Cons.prems(1) obtain h hs' where hs: "hs = h # hs'" by (cases hs) auto
  with Cons.prems(1) have sh: "shape0 h = shape0 w" "shape1 h = shape1 w"
    "shape2 h = input_dim + 1" "shape2 w = length r_in + 1"
    and last: "ws = [] \<longrightarrow> shape0 w = 1"
    and rest: "well_shaped input_dim (shape0 w + 1) ws hs'"
    by (simp_all split: if_splits)
  from layer[OF Cons.prems(3) sh] obtain r where
    r: "fst (body r_in w h) = Inr r" "length r = shape0 w" "I r" by blast
  obtain w' where b: "body r_in w h = (Inr r, w')" using r(1) by (cases "body r_in w h") simp
  show ?case
  proof (cases "ws = []")
    case True
    with last r(2) obtain r0 where "r = [r0]" by (cases r) auto
    moreover from True rest have "hs' = []" by (cases hs') auto
    ultimately show ?thesis using b hs True by simp
  next
    case False
    from rest r(2) have "well_shaped input_dim (length r + 1) ws hs'" by simp
    from Cons.IH[OF this False r(3), of "Some r"] b hs show ?thesis
      by (simp only: for_layers_Cons) simp
  qed
qed

lemma step_square_loss_returns:
  assumes "well_shaped (length inputs) (length inputs + 1) weights hyperplanes" "weights \<noteq> []"
  shows "\<exists>p. fst (step_square_loss inputs weights hyperplanes hbm lr (Some t) update)
              = Inr (p, (t - p)\<^sup>2 / 2)"
proof -
  have "\<exists>r0. fst (for_layers (layer_square_loss (hstack hbm inputs) lr (Some t) update)
                   inputs None weights hyperplanes) = Inr (Some [r0])"
    by (rule for_layers_returns[where I = "\<lambda>_. True" and input_dim = "length inputs", OF _ assms])
      (use layer_square_loss_returns in \<open>auto\<close>)
  then show ?thesis
    by (auto simp add: step_square_loss_def Let_def split: prod.splits)
qed

lemma step_bernoulli_returns:
  assumes "well_shaped (length inputs) (length inputs + 1) weights hyperplanes" "weights \<noteq> []"
    and "epsilon < 1"
  shows "\<exists>p. fst (step_bernoulli inputs weights hyperplanes hbm lr epsilon (Some t) update)
              = Inr (p, - (t * p + (1 - t) * (1 - p)))"
proof -
  let ?I = "\<lambda>r. \<forall>x\<in>set r. 0 < x \<and> x < (1::real)"
  let ?r_in = "map (\<lambda>x. clip (sigmoid x) epsilon (1 - epsilon)) inputs"
  have I: "?I ?r_in" using clip_sigmoid_unit[OF assms(3)] by auto
  have ws: "well_shaped (length inputs) (length ?r_in + 1) weights hyperplanes"
    using assms(1) by simp
  have "\<exists>r0. fst (for_layers (layer_bernoulli (hstack hbm inputs) lr epsilon (Some t) update)
                   ?r_in None weights hyperplanes) = Inr (Some [r0])"
  proof (rule for_layers_returns[where I = ?I and input_dim = "length inputs", OF _ ws assms(2) I])
    fix r_in :: "real list" and w h :: ndarray3
    assume a: "?I r_in" "shape0 h = shape0 w" "shape1 h = shape1 w"
      "shape2 h = length inputs + 1" "shape2 w = length r_in + 1"
    from a(4) have "shape2 h = length (hstack hbm inputs)" by simp
    with a(1,2,3,5) layer_bernoulli_returns[where h = h and w = w and r_in = r_in
        and side_info = "hstack hbm inputs" and lr = lr and epsilon = epsilon and t = t
        and update = update]
    obtain r where r: "fst (layer_bernoulli (hstack hbm inputs) lr epsilon (Some t) update r_in w h) = Inr r"
      "length r = shape0 w" by blast
    obtain w' where "layer_bernoulli (hstack hbm inputs) lr epsilon (Some t) update r_in w h = (Inr r, w')"
      using r(1) by (cases "layer_bernoulli (hstack hbm inputs) lr epsilon (Some t) update r_in w h") simp
    from layer_bernoulli_clipped[OF this] have "?I r"
      using clip_sigmoid_unit[OF assms(3)] by auto
    with r show "\<exists>r. fst (layer_bernoulli (hstack hbm inputs) lr epsilon (Some t) update r_in w h) = Inr r
        \<and> length r = shape0 w \<and> ?I r" by blast
  qed
  then show ?thesis
    by (auto simp add: step_bernoulli_def Let_def split: prod.splits)
qed

subsection \<open>The effective weights\<close>

text \<open>
  C1 (effective weights are the gated sum of the neuron's own rows) does not hold of
  the code: \<open>gate_values.dot(w).sum(axis=1)\<close> sums over the neurons of \<open>w\<close> as well. In a
  network of two layers, the first with two neurons of one branch each, all gates true,
  the rows of the second neuron all zero and the row of the first \<open>[1, 0]\<close>, the
  effective weight of the second neuron at index 0 is 1, the sum over both neurons'
  rows, where its own row has \<open>W[1, 0, 0] = 0\<close>. The second layer reads the second
  neuron's output, and the prediction is 1 where the per-neuron sum gives 0.
\<close>

theorem effective_weights_sum_over_neurons:
  "gate_values (array3 [[[1, 1]], [[1, 1]]]) [1, 1] 1 0
   \<and> elem (array3 [[[1, 0]], [[0, 0]]]) 1 0 0 = 0
   \<and> effective_weights (gate_values (array3 [[[1, 1]], [[1, 1]]]) [1, 1])
        (array3 [[[1, 0]], [[0, 0]]]) 1 0 = 1
   \<and> fst (step_square_loss [1]
        [array3 [[[1, 0]], [[0, 0]]], array3 [[[0, 0, 1]]]]
        [array3 [[[1, 1]], [[1, 1]]], array3 [[[1, 1]]]] 1 (1 / 10) (Some 0) False)
      = Inr (1, 1 / 2)"
  by (simp add: step_square_loss_def layer_square_loss_def gate_values_def h_dot_def array3_def
      heaviside_def astype_bool_def upt_conv_Cons numeral_2_eq_2 numeral_3_eq_3
      effective_weights_def gate_dot_w_def Let_def)

subsection \<open>The gates\<close>






subsection \<open>The Bernoulli prediction\<close>

text \<open>
  C4, as the code has it: whenever \<open>step_bernoulli\<close> returns, it has run at least one
  layer, and its prediction is either nan or lies in the closed interval from \<open>epsilon\<close>
  to \<open>1 - epsilon\<close>, for every input, weights, hyperplanes, target and update flag, the
  infinite and the nan ones too. The interval is meant: \<open>epsilon\<close> is at most one half.
\<close>

theorem bernoulli_prediction_nan_or_bounds:
  assumes "fst (step_bernoulli64 inputs weights hyperplanes hbm lr epsilon target update)
             = Inr (prediction, loss)"
    and "epsilon \<le> 1 / 2"
  shows "weights \<noteq> [] \<and> hyperplanes \<noteq> []
         \<and> (prediction = NaN
            \<or> (\<exists>p. prediction = Finite p \<and> epsilon \<le> p \<and> p \<le> 1 - epsilon))"
proof -
  from fst_step_bernoulli64_Inr[OF assms(1)] obtain r where
    r: "fst (for_layers64 (layer_bernoulli64 (Finite hbm # inputs) lr epsilon target update)
              (map (\<lambda>x. clip64 (sigmoid64 x) epsilon (1 - epsilon)) inputs) None weights hyperplanes)
            = Inr (Some (prediction # r))" by blast
  note ran = for_layers64_ran[OF r]
  have "\<forall>x\<in>set (prediction # r). \<exists>y. x = clip64 y epsilon (1 - epsilon)"
    by (rule for_layers64_result[OF _ r]) (auto dest: layer_bernoulli64_clipped)
  then obtain y where y: "prediction = clip64 y epsilon (1 - epsilon)" by auto
  from assms(2) have "epsilon \<le> 1 - epsilon" by simp
  from clip64_bounds[OF this, of y] y ran show ?thesis by simp
qed

theorem bernoulli_prediction_nan_or_bounds_witness:
  "fst (step_bernoulli64 [Finite 1] [array64 [[[0, 0]]]] [array64 [[[1, 1]]]]
          1 (1 / 100000) (1 / 100) (Some 1) False)
     = Inr (Finite (1 / 2), Finite (- (1 / 2)))
   \<and> (1 / 100 :: real) \<le> 1 / 2 \<and> (1 / 2 :: real) \<le> 1 - 1 / 100"
proof -
  have run: "fst (step_bernoulli64 [Finite 1] [array64 [[[0, 0]]]] [array64 [[[1, 1]]]]
          1 (1 / 100000) (1 / 100) (Some 1) False)
     = Inr (Finite (1 / 2), Finite (- (1 / 2)))"
    by (simp add: step_bernoulli64_def layer_bernoulli64_def sigmoid64_Finite sigmoid64_0
        inverse_sigmoid64_sigmoid_1 clip_sigmoid_1 sub64_def
        gate_values64_def h_dot64_def array64_def astype_bool64_def
        astype_float64_def sum64_def of_exact_def
        upt_conv_Cons numeral_2_eq_2 effective_weights64_def gate_dot_w64_def Let_def)
  from bernoulli_prediction_nan_or_bounds[OF run] run show ?thesis by simp
qed

text \<open>
  C4 as stated (the prediction always lies in the interval) fails where the forward
  pass overflows. One layer of one neuron with two branches, both gates true, holds the
  finite weights \<open>[1e308, -1e308]\<close> in each branch; the input is 1 and \<open>epsilon\<close> is 0.01.
  The sum over the branches is \<open>[inf, -inf]\<close>, \<open>h_in\<close> is \<open>[1, 1]\<close>, so \<open>h_out\<close> is
  \<open>inf - inf\<close>, which is nan; \<open>np.clip\<close> passes nan, and the step returns nan.
\<close>

theorem nan_prediction_counterexample:
  "fst (step_bernoulli64 [Finite 1]
          [array64 [[[10 ^ 308, - (10 ^ 308)], [10 ^ 308, - (10 ^ 308)]]]]
          [array64 [[[1, 1], [1, 1]]]] 1 (1 / 100000) (1 / 100) (Some 1) False)
     = Inr (NaN, NaN)"
  by (simp add: step_bernoulli64_def layer_bernoulli64_def sigmoid64_Finite sigmoid64_NaN
        inverse_sigmoid64_sigmoid_1 clip_sigmoid_1 sub64_def
        gate_values64_def h_dot64_def array64_def heaviside64.simps astype_bool64_def
        astype_float64_def sum64_def of_exact_def
        upt_conv_Cons numeral_2_eq_2 effective_weights64_def gate_dot_w64_def Let_def)

subsection \<open>What a call writes\<close>

text \<open>
  C5, as the code has it: a call of either step with \<open>update\<close> false leaves the list of
  weight arrays as it was. A call with \<open>update\<close> true, whether it returns or raises,
  leaves as many arrays as there were, and in the array of layer \<open>i\<close> every entry
  \<open>W[n, b, m]\<close> whose gate \<open>G[n, b]\<close> is false for this example either keeps its value or
  becomes nan; the gate pattern of the layer is that of its hyperplanes, which have as
  many neurons as the weights. The update multiplies by the gate, \<open>0 * grad\<close>, which is
  zero for a finite \<open>grad\<close> and nan for an infinite or nan one. The value kept is that
  of a number: this embedding has one zero, so an entry \<open>-0.0\<close> from which the code
  subtracts \<open>-0.0\<close>, leaving \<open>+0.0\<close>, counts as kept.
\<close>

theorem weights_frame_or_nan:
  "snd (step_square_loss64 inputs weights hyperplanes hbm lr target False) = weights
   \<and> snd (step_bernoulli64 inputs weights hyperplanes hbm lr epsilon target False) = weights
   \<and> length (snd (step_square_loss64 inputs weights hyperplanes hbm lr target True)) = length weights
   \<and> length (snd (step_bernoulli64 inputs weights hyperplanes hbm lr epsilon target True))
       = length weights
   \<and> (i < length weights \<and> i < length hyperplanes
        \<and> fshape0 (hyperplanes ! i) = fshape0 (weights ! i)
        \<and> \<not> gate_values64 (hyperplanes ! i) (Finite hbm # inputs) n b
        \<and> is_float64 (felem (weights ! i) n b m)
      \<longrightarrow> (felem (snd (step_square_loss64 inputs weights hyperplanes hbm lr target True) ! i) n b m
              = felem (weights ! i) n b m
            \<or> felem (snd (step_square_loss64 inputs weights hyperplanes hbm lr target True) ! i) n b m
              = NaN)
        \<and> (felem (snd (step_bernoulli64 inputs weights hyperplanes hbm lr epsilon target True) ! i)
                n b m
              = felem (weights ! i) n b m
            \<or> felem (snd (step_bernoulli64 inputs weights hyperplanes hbm lr epsilon target True) ! i)
                n b m
              = NaN))"
proof (intro conjI impI)
  show "snd (step_square_loss64 inputs weights hyperplanes hbm lr target False) = weights"
    unfolding snd_step_square_loss64
    by (rule for_layers64_unchanged) (rule layer_square_loss64_no_update)
  show "snd (step_bernoulli64 inputs weights hyperplanes hbm lr epsilon target False) = weights"
    unfolding snd_step_bernoulli64
    by (rule for_layers64_unchanged) (rule layer_bernoulli64_no_update)
  show "length (snd (step_square_loss64 inputs weights hyperplanes hbm lr target True)) = length weights"
    unfolding snd_step_square_loss64 by (rule for_layers64_length)
  show "length (snd (step_bernoulli64 inputs weights hyperplanes hbm lr epsilon target True))
       = length weights"
    unfolding snd_step_bernoulli64 by (rule for_layers64_length)
next
  assume a: "i < length weights \<and> i < length hyperplanes
        \<and> fshape0 (hyperplanes ! i) = fshape0 (weights ! i)
        \<and> \<not> gate_values64 (hyperplanes ! i) (Finite hbm # inputs) n b
        \<and> is_float64 (felem (weights ! i) n b m)"
  let ?Q = "\<lambda>w h w'. fshape0 h = fshape0 w \<and> \<not> gate_values64 h (Finite hbm # inputs) n b
              \<and> is_float64 (felem w n b m)
              \<longrightarrow> felem w' n b m = felem w n b m \<or> felem w' n b m = NaN"
  have "?Q (weights ! i) (hyperplanes ! i)
          (snd (for_layers64 (layer_square_loss64 (Finite hbm # inputs) lr target True) inputs None
                 weights hyperplanes) ! i)"
    by (rule for_layers64_nth[where Q = ?Q]) (use a layer_square_loss64_frame in \<open>simp_all\<close>)
  with a show "felem (snd (step_square_loss64 inputs weights hyperplanes hbm lr target True) ! i) n b m
              = felem (weights ! i) n b m
            \<or> felem (snd (step_square_loss64 inputs weights hyperplanes hbm lr target True) ! i) n b m
              = NaN"
    unfolding snd_step_square_loss64 by simp
  have "?Q (weights ! i) (hyperplanes ! i)
          (snd (for_layers64 (layer_bernoulli64 (Finite hbm # inputs) lr epsilon target True)
                 (map (\<lambda>x. clip64 (sigmoid64 x) epsilon (1 - epsilon)) inputs) None
                 weights hyperplanes) ! i)"
    by (rule for_layers64_nth[where Q = ?Q]) (use a layer_bernoulli64_frame in \<open>simp_all\<close>)
  with a show "felem (snd (step_bernoulli64 inputs weights hyperplanes hbm lr epsilon target True) ! i)
                n b m
              = felem (weights ! i) n b m
            \<or> felem (snd (step_bernoulli64 inputs weights hyperplanes hbm lr epsilon target True) ! i)
                n b m
              = NaN"
    unfolding snd_step_bernoulli64 by simp
qed

theorem weights_frame_or_nan_witness:
  "\<not> gate_values64 (array64 [[[1, 0], [- 1, 0]]]) [Finite 1, Finite 2] 0 1
   \<and> is_float64 (felem (array64 [[[8, 0], [1 / 4, 1 / 4]]]) 0 1 1)
   \<and> map (\<lambda>b. map (\<lambda>m. felem (snd (step_square_loss64 [Finite 2]
                 [array64 [[[8, 0], [1 / 4, 1 / 4]]]]
                 [array64 [[[1, 0], [- 1, 0]]]] 1 1 (Some 0) True) ! 0) 0 b m) [0, 1]) [0, 1]
       = [[Finite 0, Finite (- 16)], [Finite (1 / 4), Finite (1 / 4)]]
   \<and> (felem (snd (step_square_loss64 [Finite 2] [array64 [[[8, 0], [1 / 4, 1 / 4]]]]
                 [array64 [[[1, 0], [- 1, 0]]]] 1 1 (Some 0) True) ! 0) 0 1 1 = Finite (1 / 4)
        \<or> felem (snd (step_square_loss64 [Finite 2] [array64 [[[8, 0], [1 / 4, 1 / 4]]]]
                 [array64 [[[1, 0], [- 1, 0]]]] 1 1 (Some 0) True) ! 0) 0 1 1 = NaN)
   \<and> (felem (snd (step_bernoulli64 [Finite 2] [array64 [[[8, 0], [1 / 4, 1 / 4]]]]
                 [array64 [[[1, 0], [- 1, 0]]]] 1 1 (1 / 100) (Some 0) True) ! 0) 0 1 1 = Finite (1 / 4)
        \<or> felem (snd (step_bernoulli64 [Finite 2] [array64 [[[8, 0], [1 / 4, 1 / 4]]]]
                 [array64 [[[1, 0], [- 1, 0]]]] 1 1 (1 / 100) (Some 0) True) ! 0) 0 1 1 = NaN)"
proof -
  let ?w = "array64 [[[8, 0], [1 / 4, 1 / 4]]]"
  let ?h = "array64 [[[1, 0], [- 1, 0]]]"
  have gate: "\<not> gate_values64 ?h [Finite 1, Finite 2] 0 1"
    by (simp add: gate_values64_def h_dot64_def array64_def astype_bool64_def sum64_def
        of_exact_def upt_conv_Cons numeral_2_eq_2)
  have old: "felem ?w 0 1 1 = Finite (1 / 4)" "is_float64 (felem ?w 0 1 1)"
    "fshape0 ?h = fshape0 ?w"
    by (simp_all add: array64_def)
  have changed: "map (\<lambda>b. map (\<lambda>m. felem (snd (step_square_loss64 [Finite 2] [?w] [?h] 1 1
                        (Some 0) True) ! 0) 0 b m) [0, 1]) [0, 1]
       = [[Finite 0, Finite (- 16)], [Finite (1 / 4), Finite (1 / 4)]]"
    by (simp add: step_square_loss64_def layer_square_loss64_def
        gate_values64_def h_dot64_def array64_def astype_bool64_def
        astype_float64_def sum64_def of_exact_def sub64_def isub64_def
        upt_conv_Cons numeral_2_eq_2 effective_weights64_def gate_dot_w64_def Let_def)
  from weights_frame_or_nan[where inputs = "[Finite 2]" and weights = "[?w]" and hyperplanes = "[?h]"
      and hbm = 1 and lr = 1 and target = "Some 0" and epsilon = "1 / 100"
      and i = 0 and n = 0 and b = 1 and m = 1] gate old
  have "(felem (snd (step_square_loss64 [Finite 2] [?w] [?h] 1 1 (Some 0) True) ! 0) 0 1 1
           = Finite (1 / 4)
         \<or> felem (snd (step_square_loss64 [Finite 2] [?w] [?h] 1 1 (Some 0) True) ! 0) 0 1 1 = NaN)
       \<and> (felem (snd (step_bernoulli64 [Finite 2] [?w] [?h] 1 1 (1 / 100) (Some 0) True) ! 0) 0 1 1
           = Finite (1 / 4)
         \<or> felem (snd (step_bernoulli64 [Finite 2] [?w] [?h] 1 1 (1 / 100) (Some 0) True) ! 0) 0 1 1
           = NaN)"
    by simp
  with gate old(2) changed show ?thesis by simp
qed

text \<open>
  C5 as stated (an entry whose gate is false is the same before and after) fails where
  the gradient overflows. One layer of one neuron with two branches, the gate of the
  first true and of the second false, input \<open>2^600\<close>, target 0, learning rate 1. The
  output is \<open>2^500\<close>, the gradient \<open>2^500 * [1, 2^600]\<close> is \<open>[2^500, inf]\<close>, and the entry
  \<open>W[0, 1, 1] = 0.25\<close> of the branch whose gate is false becomes \<open>0.25 - 0 * inf\<close>, which
  is nan, while the call returns the finite prediction \<open>2^500\<close> and loss \<open>2^999\<close>.
\<close>

theorem nan_weight_counterexample:
  "\<not> gate_values64 (array64 [[[1, 0], [- 1, 0]]]) [Finite 1, Finite (2 ^ 600)] 0 1
   \<and> felem (array64 [[[2 ^ 500, 0], [1 / 4, 1 / 4]]]) 0 1 1 = Finite (1 / 4)
   \<and> fst (step_square_loss64 [Finite (2 ^ 600)] [array64 [[[2 ^ 500, 0], [1 / 4, 1 / 4]]]]
          [array64 [[[1, 0], [- 1, 0]]]] 1 1 (Some 0) True)
       = Inr (Finite (2 ^ 500), Finite (2 ^ 999))
   \<and> felem (snd (step_square_loss64 [Finite (2 ^ 600)] [array64 [[[2 ^ 500, 0], [1 / 4, 1 / 4]]]]
          [array64 [[[1, 0], [- 1, 0]]]] 1 1 (Some 0) True) ! 0) 0 1 1 = NaN"
  by (simp add: step_square_loss64_def layer_square_loss64_def
        gate_values64_def h_dot64_def array64_def astype_bool64_def
        astype_float64_def sum64_def of_exact_def sub64_def isub64_def
        upt_conv_Cons numeral_2_eq_2 effective_weights64_def gate_dot_w64_def Let_def)

subsection \<open>The square-loss scenario\<close>

text \<open>
  C6: one layer of one neuron with one branch, hyperplane row \<open>[1, 1]\<close>, weights
  \<open>[0, 0]\<close>, input 2, target 3, learning rate 0.1, \<open>update\<close> true. The gate is true, the
  biased input is \<open>[1, 2]\<close>, the step returns the prediction 0 and the loss 4.5, and the
  weights after the call are \<open>[0.3, 0.6]\<close> (in exact arithmetic).
\<close>

theorem square_loss_scenario:
  "gate_values (array3 [[[1, 1]]]) (hstack 1 [2]) 0 0
   \<and> hstack 1 [2] = [1, 2]
   \<and> fst (step_square_loss [2] [zeros 1 1 2] [array3 [[[1, 1]]]] 1 (1 / 10) (Some 3) True)
       = Inr (0, 9 / 2)
   \<and> map tolist (snd (step_square_loss [2] [zeros 1 1 2] [array3 [[[1, 1]]]] 1 (1 / 10) (Some 3) True))
       = [[[[3 / 10, 6 / 10]]]]"
  by (simp add: step_square_loss_def layer_square_loss_def gate_values_def h_dot_def array3_def
      zeros_def heaviside_def astype_bool_def upt_conv_Cons numeral_2_eq_2
      effective_weights_def gate_dot_w_def isub_def Let_def tolist_def)

subsection \<open>Zero weights\<close>

text \<open>
  C7: with every entry of every weight array zero and \<open>update\<close> false, a call of
  \<open>step_square_loss\<close> that returns has the prediction 0, and a call of \<open>step_bernoulli\<close>
  that returns has the prediction \<open>sigmoid(0) = 0.5\<close>, for every input and all
  hyperplanes; for the Bernoulli step \<open>epsilon\<close> is at most one half, so that 0.5 lies
  in the clip interval. On a network of at least one layer with the shapes the notebook
  builds, a call with the target \<open>t\<close> does return: the prediction 0 with the loss
  \<open>t\<^sup>2 / 2\<close>, and the prediction 0.5 with the loss \<open>-0.5\<close>.
\<close>

theorem zero_weights_prediction:
  assumes "\<forall>w\<in>set weights. \<forall>k<shape0 w. \<forall>b<shape1 w. \<forall>m<shape2 w. elem w k b m = 0"
  shows "(fst (step_square_loss inputs weights hyperplanes hbm lr target False) = Inr (p, l)
            \<longrightarrow> p = 0)
       \<and> (epsilon \<le> 1 / 2
            \<and> fst (step_bernoulli inputs weights hyperplanes hbm lr epsilon target False) = Inr (q, l')
            \<longrightarrow> q = sigmoid 0 \<and> q = 1 / 2)
       \<and> (well_shaped (length inputs) (length inputs + 1) weights hyperplanes \<and> weights \<noteq> []
            \<longrightarrow> fst (step_square_loss inputs weights hyperplanes hbm lr (Some t) False)
                  = Inr (0, t\<^sup>2 / 2)
              \<and> (epsilon \<le> 1 / 2
                  \<longrightarrow> fst (step_bernoulli inputs weights hyperplanes hbm lr epsilon (Some t) False)
                        = Inr (1 / 2, - (1 / 2))))"
proof -
  have sq: "p = 0"
    if "fst (step_square_loss inputs weights hyperplanes hbm lr target False) = Inr (p, l)"
    for target p l
  proof -
    from fst_step_square_loss_Inr[OF that] obtain r where
      r: "fst (for_layers (layer_square_loss (hstack hbm inputs) lr target False) inputs None
                weights hyperplanes) = Inr (Some (p # r))" by blast
    have "\<forall>x\<in>set (p # r). x = 0"
      by (rule for_layers_result[OF _ r]) (use assms in \<open>auto dest: layer_square_loss_zero\<close>)
    then show ?thesis by simp
  qed
  have be: "q = 1 / 2"
    if "epsilon \<le> 1 / 2"
      and "fst (step_bernoulli inputs weights hyperplanes hbm lr epsilon target False) = Inr (q, l')"
    for target q l'
  proof -
    from fst_step_bernoulli_Inr[OF that(2)] obtain r where
      r: "fst (for_layers (layer_bernoulli (hstack hbm inputs) lr epsilon target False)
                (map (\<lambda>x. clip (sigmoid x) epsilon (1 - epsilon)) inputs) None weights hyperplanes)
              = Inr (Some (q # r))" by blast
    have "\<forall>x\<in>set (q # r). x = clip (sigmoid 0) epsilon (1 - epsilon)"
      by (rule for_layers_result[OF _ r]) (use assms in \<open>auto dest: layer_bernoulli_zero\<close>)
    then have "q = clip (sigmoid 0) epsilon (1 - epsilon)" by simp
    with that(1) show ?thesis by (simp add: clip_sigmoid_0)
  qed
  have sq_returns: "fst (step_square_loss inputs weights hyperplanes hbm lr (Some t) False)
                  = Inr (0, t\<^sup>2 / 2)"
    if shaped: "well_shaped (length inputs) (length inputs + 1) weights hyperplanes" "weights \<noteq> []"
  proof -
    from step_square_loss_returns[OF shaped, of hbm lr t False] obtain p0
      where p0: "fst (step_square_loss inputs weights hyperplanes hbm lr (Some t) False)
                   = Inr (p0, (t - p0)\<^sup>2 / 2)" by blast
    from sq[OF p0] p0 show ?thesis by simp
  qed
  have be_returns: "fst (step_bernoulli inputs weights hyperplanes hbm lr epsilon (Some t) False)
                        = Inr (1 / 2, - (1 / 2))"
    if shaped: "well_shaped (length inputs) (length inputs + 1) weights hyperplanes" "weights \<noteq> []"
      and eps: "epsilon \<le> 1 / 2"
  proof -
    from eps have "epsilon < 1" by simp
    from step_bernoulli_returns[OF shaped this, of hbm lr t False] obtain q0
      where q0: "fst (step_bernoulli inputs weights hyperplanes hbm lr epsilon (Some t) False)
                   = Inr (q0, - (t * q0 + (1 - t) * (1 - q0)))" by blast
    from be[OF eps q0] have "q0 = 1 / 2" .
    with q0 show ?thesis by (simp add: algebra_simps)
  qed
  show ?thesis
  proof (intro conjI impI)
    assume "fst (step_square_loss inputs weights hyperplanes hbm lr target False) = Inr (p, l)"
    then show "p = 0" by (rule sq)
  next
    assume a: "epsilon \<le> 1 / 2
      \<and> fst (step_bernoulli inputs weights hyperplanes hbm lr epsilon target False) = Inr (q, l')"
    then show "q = 1 / 2" using be by blast
    then show "q = sigmoid 0" by (simp add: sigmoid_0)
  next
    assume a: "well_shaped (length inputs) (length inputs + 1) weights hyperplanes \<and> weights \<noteq> []"
    then show "fst (step_square_loss inputs weights hyperplanes hbm lr (Some t) False)
                  = Inr (0, t\<^sup>2 / 2)"
      using sq_returns by blast
    assume "epsilon \<le> 1 / 2"
    with a show "fst (step_bernoulli inputs weights hyperplanes hbm lr epsilon (Some t) False)
                        = Inr (1 / 2, - (1 / 2))"
      using be_returns by blast
  qed
qed

theorem zero_weights_prediction_witness:
  "well_shaped 1 2 [zeros 1 1 2] [array3 [[[1, 1]]]]
   \<and> fst (step_square_loss [2] [zeros 1 1 2] [array3 [[[1, 1]]]] 1 (1 / 10) (Some 3) False)
     = Inr (0, 9 / 2)
   \<and> fst (step_bernoulli [2] [zeros 1 1 2] [array3 [[[1, 1]]]] 1 (1 / 10) (1 / 100) (Some 1) False)
     = Inr (1 / 2, - (1 / 2))"
proof -
  have zero: "\<forall>w\<in>set [zeros 1 1 2]. \<forall>k<shape0 w. \<forall>b<shape1 w. \<forall>m<shape2 w. elem w k b m = 0"
    by (simp add: zeros_def)
  have shaped: "well_shaped 1 2 [zeros 1 1 2] [array3 [[[1, 1]]]]"
    by (simp add: zeros_def array3_def)
  from zero_weights_prediction[OF zero, where inputs = "[2]" and hyperplanes = "[array3 [[[1, 1]]]]"
      and hbm = 1 and lr = "1 / 10" and t = 3] shaped
  have sq: "fst (step_square_loss [2] [zeros 1 1 2] [array3 [[[1, 1]]]] 1 (1 / 10) (Some 3) False)
     = Inr (0, 9 / 2)"
    by simp
  from zero_weights_prediction[OF zero, where inputs = "[2]" and hyperplanes = "[array3 [[[1, 1]]]]"
      and hbm = 1 and lr = "1 / 10" and t = 1 and epsilon = "1 / 100"] shaped
  have be: "fst (step_bernoulli [2] [zeros 1 1 2] [array3 [[[1, 1]]]] 1 (1 / 10) (1 / 100) (Some 1) False)
     = Inr (1 / 2, - (1 / 2))"
    by simp
  from shaped sq be show ?thesis by simp
qed

subsection \<open>The saturated gradient\<close>

text \<open>
  C8: in a layer of \<open>step_bernoulli\<close> that updates, the rows of a neuron whose clipped
  output is exactly \<open>epsilon\<close> or exactly \<open>1 - epsilon\<close> are left as they were, and the
  rows of a neuron whose output lies strictly between the two get the ordinary update
  \<open>W[n, b, m] -= learning_rate * G[n, b] * (r_out[n] - target) * h_in[m]\<close>.
\<close>

theorem bernoulli_saturated_gradient:
  assumes "layer_bernoulli side_info lr epsilon (Some t) True r_in w h = (Inr r_out, w')"
    and "inverse_sigmoid_array (hstack (sigmoid 1) r_in) = Some h_in"
    and "shape0 h = shape0 w" and "n < shape0 w" and "b < shape1 w" and "m < shape2 w"
  shows "(r_out ! n = epsilon \<or> r_out ! n = 1 - epsilon \<longrightarrow> elem w' n b m = elem w n b m)
       \<and> (epsilon < r_out ! n \<and> r_out ! n < 1 - epsilon
            \<longrightarrow> elem w' n b m
                = elem w n b m
                  - lr * of_bool (gate_values h side_info n b) * ((r_out ! n - t) * h_in ! m))"
proof -
  define ui where "ui = (\<lambda>n. r_out ! n < 1 - epsilon \<and> r_out ! n > epsilon)"
  define grad where "grad = (\<lambda>n m. (r_out ! n - t) * h_in ! m * of_bool (ui n))"
  from assms(1,2) have "isub w (shape0 h) lr (gate_values h side_info) grad = Inr w'"
    by (auto simp add: layer_bernoulli_def Let_def grad_def ui_def simp del: inverse_sigmoid_array.simps
        split: if_splits sum.splits)
  from isub_elem[OF this assms(3-6)]
  have e: "elem w' n b m = elem w n b m - lr * of_bool (gate_values h side_info n b) * grad n m" .
  show ?thesis
    unfolding e by (auto simp add: grad_def ui_def)
qed

theorem bernoulli_saturated_gradient_witness:
  "fst (layer_bernoulli [1, 0] 1 (1 / 100) (Some 1) True [1 / 2]
          (array3 [[[- 100, 0]]]) (array3 [[[1, 1]]])) = Inr [1 / 100]
   \<and> elem (snd (layer_bernoulli [1, 0] 1 (1 / 100) (Some 1) True [1 / 2]
          (array3 [[[- 100, 0]]]) (array3 [[[1, 1]]]))) 0 0 0 = - 100
   \<and> fst (layer_bernoulli [1, 0] 1 (1 / 100) (Some 1) True [1 / 2]
          (zeros 1 1 2) (array3 [[[1, 1]]])) = Inr [1 / 2]
   \<and> elem (snd (layer_bernoulli [1, 0] 1 (1 / 100) (Some 1) True [1 / 2]
          (zeros 1 1 2) (array3 [[[1, 1]]]))) 0 0 0 = 1 / 2"
proof -
  let ?h = "array3 [[[1, 1]]]"
  let ?w = "array3 [[[- 100, 0]]]"
  let ?sat = "layer_bernoulli [1, 0] 1 (1 / 100) (Some 1) True [1 / 2] ?w ?h"
  let ?mid = "layer_bernoulli [1, 0] 1 (1 / 100) (Some 1) True [1 / 2] (zeros 1 1 2) ?h"
  have gate: "gate_values ?h [1, 0] 0 0"
    by (simp add: gate_values_def h_dot_def array3_def heaviside_def astype_bool_def
        upt_conv_Cons numeral_2_eq_2)
  have sat: "fst ?sat = Inr [1 / 100]"
    by (simp add: layer_bernoulli_def inverse_sigmoid_sigmoid inverse_sigmoid_half
        clip_sigmoid_minus_100[simplified] array3_def upt_conv_Cons numeral_2_eq_2
        effective_weights_def gate_dot_w_def gate[unfolded array3_def, simplified] isub_def Let_def)
  have mid: "fst ?mid = Inr [1 / 2]"
    by (simp add: layer_bernoulli_def inverse_sigmoid_sigmoid inverse_sigmoid_half
        clip_sigmoid_0[of "1 / 100", simplified] array3_def zeros_def upt_conv_Cons numeral_2_eq_2
        effective_weights_def gate_dot_w_def isub_def Let_def)
  have shapes: "shape0 ?h = shape0 ?w" "0 < shape0 ?w" "0 < shape1 ?w" "0 < shape2 ?w"
    "shape0 ?h = shape0 (zeros 1 1 2)" "0 < shape0 (zeros 1 1 2)" "0 < shape1 (zeros 1 1 2)"
    "0 < shape2 (zeros 1 1 2)"
    by (simp_all add: array3_def zeros_def)
  from sat have sat': "?sat = (Inr [1 / 100], snd ?sat)" by (simp add: prod_eq_iff)
  from mid have mid': "?mid = (Inr [1 / 2], snd ?mid)" by (simp add: prod_eq_iff)
  from bernoulli_saturated_gradient[OF sat' inverse_sigmoid_array_bias_half shapes(1-4)]
  have "elem (snd ?sat) 0 0 0 = elem ?w 0 0 0" by simp
  then have a: "elem (snd ?sat) 0 0 0 = - 100" by (simp add: array3_def)
  from bernoulli_saturated_gradient[OF mid' inverse_sigmoid_array_bias_half shapes(5-8)] gate
  have b: "elem (snd ?mid) 0 0 0 = 1 / 2" by (simp add: zeros_def)
  from sat a mid b show ?thesis by simp
qed

subsection \<open>Two runs\<close>

text \<open>
  C9: with \<open>update\<close> false, a second call of a step with the same input, hyperplanes and
  configuration, on the weight arrays as the first call left them, gives the same
  result as the first: the same prediction and loss, or the same exception.
\<close>

theorem no_update_two_runs:
  "fst (step_square_loss inputs
          (snd (step_square_loss inputs weights hyperplanes hbm lr target False))
          hyperplanes hbm lr target False)
     = fst (step_square_loss inputs weights hyperplanes hbm lr target False)
   \<and> fst (step_bernoulli inputs
          (snd (step_bernoulli inputs weights hyperplanes hbm lr epsilon target False))
          hyperplanes hbm lr epsilon target False)
     = fst (step_bernoulli inputs weights hyperplanes hbm lr epsilon target False)"
  by (simp add: step_square_loss_no_update step_bernoulli_no_update)

subsection \<open>A missing target\<close>

text \<open>
  C10: a call of either step with \<open>target\<close> None raises, whatever the update flag, the
  input, the weights and the hyperplanes; it never returns a prediction. In the
  square-loss step, and in the Bernoulli step with \<open>epsilon\<close> below 1, the run stays in
  the reals, so what is raised is a Python exception.
\<close>

theorem missing_target_raises:
  "(\<exists>e. fst (step_square_loss inputs weights hyperplanes hbm lr None update) = Inl e
        \<and> e \<noteq> NonFinite)
   \<and> (\<exists>e. fst (step_bernoulli inputs weights hyperplanes hbm lr epsilon None update) = Inl e
        \<and> (epsilon < 1 \<longrightarrow> e \<noteq> NonFinite))"
proof -
  from step_square_loss_None obtain e1
    where e1: "fst (step_square_loss inputs weights hyperplanes hbm lr None update) = Inl e1"
    by blast
  from step_bernoulli_None obtain e2
    where e2: "fst (step_bernoulli inputs weights hyperplanes hbm lr epsilon None update) = Inl e2"
    by blast
  from e1 step_square_loss_finite[of inputs weights hyperplanes hbm lr None update]
  have "e1 \<noteq> NonFinite" by auto
  moreover from e2 step_bernoulli_finite[of epsilon inputs weights hyperplanes hbm lr None update]
  have "epsilon < 1 \<longrightarrow> e2 \<noteq> NonFinite" by auto
  ultimately show ?thesis using e1 e2 by blast
qed

theorem missing_target_raises_witness:
  "fst (step_square_loss [2] [zeros 1 1 2] [array3 [[[1, 1]]]] 1 (1 / 10) None False)
     = Inl TypeError
   \<and> fst (step_square_loss [2] [zeros 1 1 2] [array3 [[[1, 1]]]] 1 (1 / 10) None True)
     = Inl TypeError
   \<and> (1 / 100 :: real) < 1
   \<and> (\<exists>e. fst (step_bernoulli [2] [zeros 1 1 2] [array3 [[[1, 1]]]] 1 (1 / 10) (1 / 100) None False)
            = Inl e \<and> e \<noteq> NonFinite)"
proof -
  have "fst (step_square_loss [2] [zeros 1 1 2] [array3 [[[1, 1]]]] 1 (1 / 10) None False)
     = Inl TypeError"
    by (simp add: step_square_loss_def layer_square_loss_def gate_values_def h_dot_def array3_def
        zeros_def heaviside_def astype_bool_def upt_conv_Cons numeral_2_eq_2 Let_def)
  moreover have "fst (step_square_loss [2] [zeros 1 1 2] [array3 [[[1, 1]]]] 1 (1 / 10) None True)
     = Inl TypeError"
    by (simp add: step_square_loss_def layer_square_loss_def gate_values_def h_dot_def array3_def
        zeros_def heaviside_def astype_bool_def upt_conv_Cons numeral_2_eq_2 Let_def)
  moreover from missing_target_raises[where inputs = "[2]" and weights = "[zeros 1 1 2]"
      and hyperplanes = "[array3 [[[1, 1]]]]" and hbm = 1 and lr = "1 / 10" and epsilon = "1 / 100"
      and update = False]
  have "\<exists>e. fst (step_bernoulli [2] [zeros 1 1 2] [array3 [[[1, 1]]]] 1 (1 / 10) (1 / 100) None False)
            = Inl e \<and> e \<noteq> NonFinite"
    by simp
  ultimately show ?thesis by simp
qed

end
